theory Spec2Isabelle
  imports Complex_Main "HOL-Library.Word" "HOL-Library.Signed_Division"
begin

section \<open>Machine integers of gtkgridview.c\<close>

text \<open>
  \<^verbatim>\<open>guint\<close> and \<^verbatim>\<open>int\<close> are 32-bit. Both are words here: arithmetic wraps,
  an \<^verbatim>\<open>int\<close> is read with \<open>sint\<close>, a \<^verbatim>\<open>guint\<close> with \<open>unat\<close>/\<open>uint\<close>.  Where C
  compares or divides an \<^verbatim>\<open>int\<close> with a \<^verbatim>\<open>guint\<close> the \<^verbatim>\<open>int\<close> is converted to
  unsigned first, so the operation is the unsigned one of the word type.  Sums,
  differences and products of \<^verbatim>\<open>int\<close>s wrap as on two's complement hardware.
  What stops the program is a value of \<open>error\<close>: a division by zero (or of
  \<^verbatim>\<open>INT_MIN\<close> by -1), a read through \<^verbatim>\<open>NULL\<close>, a failed \<^verbatim>\<open>g_assert\<close>, a conversion
  of a \<^verbatim>\<open>double\<close> that is out of the integer type's range.
\<close>

type_synonym guint = "32 word"
type_synonym gint = "32 word"

datatype error =
  DivisionByZero
| SignedOverflow
| NullDereference
| AssertionFailed
| UndefinedConversion

text \<open>\<^verbatim>\<open>a / b\<close> on two \<^verbatim>\<open>int\<close>s: truncation towards zero.\<close>

definition int_div :: "gint \<Rightarrow> gint \<Rightarrow> gint" where
  "int_div a b = word_of_int (sint a sdiv sint b)"

text \<open>GLib's macros \<^verbatim>\<open>MAX\<close>, \<^verbatim>\<open>MIN\<close> and \<^verbatim>\<open>CLAMP\<close> (gmacros.h), at the types
  they are used with:
  \<^verbatim>\<open>#define MAX(a, b)  (((a) > (b)) ? (a) : (b))\<close>
  \<^verbatim>\<open>#define MIN(a, b)  (((a) < (b)) ? (a) : (b))\<close>
  \<^verbatim>\<open>#define CLAMP(x, low, high)  (((x) > (high)) ? (high) : (((x) < (low)) ? (low) : (x)))\<close>\<close>

definition MAX_int :: "gint \<Rightarrow> gint \<Rightarrow> gint" where
  "MAX_int a b = (if b <s a then a else b)"

definition MIN_uint :: "guint \<Rightarrow> guint \<Rightarrow> guint" where
  "MIN_uint a b = (if a < b then a else b)"

definition CLAMP :: "guint \<Rightarrow> guint \<Rightarrow> guint \<Rightarrow> guint" where
  "CLAMP x low high = (if high < x then high else if x < low then low else x)"

text \<open>\<^verbatim>\<open>GTK_INVALID_LIST_POSITION\<close> is \<^verbatim>\<open>G_MAXUINT\<close>.\<close>

definition GTK_INVALID_LIST_POSITION :: guint where
  "GTK_INVALID_LIST_POSITION = - 1"

definition DEFAULT_MAX_COLUMNS :: guint where
  "DEFAULT_MAX_COLUMNS = 7"

definition GTK_GRID_VIEW_MIN_VISIBLE_ROWS :: int where
  "GTK_GRID_VIEW_MIN_VISIBLE_ROWS = 30"

section \<open>The interval index: cells in an augmented tree\<close>

text \<open>
  \<^verbatim>\<open>struct _Cell { GtkListItemManagerItem parent; guint size; }\<close> with the two fields
  of the parent that gtkgridview.c reads: \<^verbatim>\<open>parent.n_items\<close> and \<^verbatim>\<open>parent.widget\<close>
  (a widget is named by a number, \<open>None\<close> is \<^verbatim>\<open>NULL\<close>).
  \<^verbatim>\<open>struct _CellAugment { GtkListItemManagerItemAugment parent; guint size; }\<close> with
  \<^verbatim>\<open>parent.n_items\<close>.
\<close>

record Cell =
  n_items :: guint
  widget :: "nat option"
  cell_size :: guint

record CellAugment =
  aug_n_items :: guint
  aug_size :: guint

text \<open>
  A node of the GtkRbTree behind the list item manager: left subtree, the cell, the
  cached augment, the node's dirty bit, right subtree.  \<open>Leaf\<close> is \<^verbatim>\<open>NULL\<close>.  The
  colour of a node is left out: nothing in gtkgridview.c reads it.
\<close>

datatype rbtree = Leaf | Node rbtree Cell CellAugment bool rbtree

fun is_dirty :: "rbtree \<Rightarrow> bool" where
  "is_dirty Leaf = False"
| "is_dirty (Node l c a d r) = d"

fun cached_augment :: "rbtree \<Rightarrow> CellAugment option" where
  "cached_augment Leaf = None"
| "cached_augment (Node l c a d r) = Some a"

text \<open>The cells in the order of \<^verbatim>\<open>gtk_list_item_manager_get_first\<close> /
  \<^verbatim>\<open>gtk_rb_tree_node_get_next\<close>.\<close>

fun cells :: "rbtree \<Rightarrow> Cell list" where
  "cells Leaf = []"
| "cells (Node l c a d r) = cells l @ c # cells r"

fun n_nodes :: "rbtree \<Rightarrow> nat" where
  "n_nodes Leaf = 0"
| "n_nodes (Node l c a d r) = n_nodes l + 1 + n_nodes r"

text \<open>
  Modelled from the spec: \<^verbatim>\<open>gtk_list_item_manager_augment_node\<close> (gtklistitemmanager.c)
  is not among the sources.  The spec's summary of \<open>item_count\<close> ``equals the combination
  of its own fields with both children's summaries'': the node's \<^verbatim>\<open>n_items\<close> plus the
  children's summaries.
\<close>

definition gtk_list_item_manager_augment_node ::
  "Cell \<Rightarrow> CellAugment option \<Rightarrow> CellAugment option \<Rightarrow> guint" where
  "gtk_list_item_manager_augment_node node left right =
     n_items node
       + (case left of None \<Rightarrow> 0 | Some la \<Rightarrow> aug_n_items la)
       + (case right of None \<Rightarrow> 0 | Some ra \<Rightarrow> aug_n_items ra)"

text \<open>
  \<^verbatim>\<open>cell_augment\<close>: the arguments \<open>left\<close> and \<open>right\<close> are the augments that
  \<^verbatim>\<open>gtk_rb_tree_get_augment (tree, left)\<close> and \<^verbatim>\<open>(tree, right)\<close> return, \<open>None\<close> for
  a \<^verbatim>\<open>NULL\<close> child.
\<close>

definition cell_augment ::
  "Cell \<Rightarrow> CellAugment option \<Rightarrow> CellAugment option \<Rightarrow> CellAugment" where
  "cell_augment cell left right =
     (let aug = \<lparr>aug_n_items = gtk_list_item_manager_augment_node cell left right,
                 aug_size = cell_size cell\<rparr>;
          aug = (case left of None \<Rightarrow> aug
                 | Some left_aug \<Rightarrow> aug\<lparr>aug_size := aug_size aug + aug_size left_aug\<rparr>);
          aug = (case right of None \<Rightarrow> aug
                 | Some right_aug \<Rightarrow> aug\<lparr>aug_size := aug_size aug + aug_size right_aug\<rparr>)
      in aug)"

text \<open>
  Modelled from the spec: \<^verbatim>\<open>gtk_rb_tree_get_augment\<close> and
  \<^verbatim>\<open>gtk_rb_tree_node_mark_dirty\<close> (gtkrbtree.c) are not among the sources.  The spec:
  the summary ``must be recomputed bottom-up whenever a node's own fields or a child
  pointer changes''.  A dirty node's augment is recomputed by the augment function when
  it is asked for, which asks for the children's augments in turn; a clean node's cached
  augment is returned as it is.  The function returns the tree with the refreshed caches
  and the augment of its root.
\<close>

fun gtk_rb_tree_get_augment :: "rbtree \<Rightarrow> rbtree \<times> CellAugment option" where
  "gtk_rb_tree_get_augment Leaf = (Leaf, None)"
| "gtk_rb_tree_get_augment (Node l c a d r) =
     (if d then
        (let (l', left_aug) = gtk_rb_tree_get_augment l;
             (r', right_aug) = gtk_rb_tree_get_augment r;
             a' = cell_augment c left_aug right_aug
         in (Node l' c a' False r', Some a'))
      else (Node l c a d r, Some a))"

text \<open>
  Marking dirty walks from the node to the root and stops at the first node that is
  dirty already.  \<open>mark_parent up t\<close> is the step at an ancestor \<open>t\<close> whose child
  reported \<open>up\<close> (the walk is still going).
\<close>

fun mark_parent :: "bool \<Rightarrow> rbtree \<Rightarrow> rbtree \<times> bool" where
  "mark_parent up Leaf = (Leaf, False)"
| "mark_parent up (Node l c a d r) =
     (if up \<and> \<not> d then (Node l c a True r, True) else (Node l c a d r, False))"

text \<open>
  \<^verbatim>\<open>cell_set_size (cell, size)\<close>.  The \<^verbatim>\<open>Cell *\<close> is the cell's rank \<open>k\<close> in the
  order of the list; a rank that names no cell leaves the tree as it is.  The second
  component says whether the dirty mark still walks up.
\<close>

fun cell_set_size :: "nat \<Rightarrow> guint \<Rightarrow> rbtree \<Rightarrow> rbtree \<times> bool" where
  "cell_set_size k new_size Leaf = (Leaf, False)"
| "cell_set_size k new_size (Node l c a d r) =
     (if k < n_nodes l then
        (let (l', up) = cell_set_size k new_size l in mark_parent up (Node l' c a d r))
      else if k = n_nodes l then
        (if cell_size c = new_size then (Node l c a d r, False)
         else (Node l (c\<lparr>cell_size := new_size\<rparr>) a True r, \<not> d))
      else
        (let (r', up) = cell_set_size (k - n_nodes l - 1) new_size r
         in mark_parent up (Node l c a d r')))"

text \<open>
  The state the tree keeps between calls: a clean node has clean children and a cached
  augment that is \<^verbatim>\<open>cell_augment\<close> of its cell and its children's caches.
\<close>

fun augment_inv :: "rbtree \<Rightarrow> bool" where
  "augment_inv Leaf = True"
| "augment_inv (Node l c a d r) =
     (augment_inv l \<and> augment_inv r \<and>
      (d \<or> (\<not> is_dirty l \<and> \<not> is_dirty r \<and>
            a = cell_augment c (cached_augment l) (cached_augment r))))"

text \<open>Every node is clean and its summary is its own fields combined with the
  summaries of both children.\<close>

fun summaries_ok :: "rbtree \<Rightarrow> bool" where
  "summaries_ok Leaf = True"
| "summaries_ok (Node l c a d r) =
     (summaries_ok l \<and> summaries_ok r \<and> \<not> d \<and>
      a = cell_augment c (cached_augment l) (cached_augment r))"

text \<open>A run-size mutation, and a read of the root's summary (which re-augments).\<close>

datatype tree_op = SetSize nat guint | ReadSummary

fun apply_op :: "rbtree \<Rightarrow> tree_op \<Rightarrow> rbtree" where
  "apply_op t (SetSize k s) = fst (cell_set_size k s t)"
| "apply_op t ReadSummary = fst (gtk_rb_tree_get_augment t)"

definition root_summary :: "rbtree \<Rightarrow> CellAugment option" where
  "root_summary t = snd (gtk_rb_tree_get_augment t)"

text \<open>A node as the tree creates it: dirty, its augment not yet computed.\<close>

definition new_node :: "rbtree \<Rightarrow> Cell \<Rightarrow> rbtree \<Rightarrow> rbtree" where
  "new_node l c r = Node l c \<lparr>aug_n_items = 0, aug_size = 0\<rparr> True r"

section \<open>Errors as values\<close>

fun bind_err :: "error + 'a \<Rightarrow> ('a \<Rightarrow> error + 'b) \<Rightarrow> error + 'b" where
  "bind_err (Inl e) f = Inl e"
| "bind_err (Inr x) f = f x"

fun fold_err :: "('s \<Rightarrow> 'a \<Rightarrow> error + 's) \<Rightarrow> 'a list \<Rightarrow> 's \<Rightarrow> error + 's" where
  "fold_err f [] s = Inr s"
| "fold_err f (x # xs) s = bind_err (f s x) (fold_err f xs)"

text \<open>\<^verbatim>\<open>a / b\<close> and \<^verbatim>\<open>a % b\<close> on \<^verbatim>\<open>guint\<close>, and \<^verbatim>\<open>a / b\<close> on \<^verbatim>\<open>int\<close>: a zero divisor
  (and \<^verbatim>\<open>INT_MIN / -1\<close>) has no value in C.\<close>

definition checked_div :: "guint \<Rightarrow> guint \<Rightarrow> error + guint" where
  "checked_div a b = (if b = 0 then Inl DivisionByZero else Inr (a div b))"

definition checked_mod :: "guint \<Rightarrow> guint \<Rightarrow> error + guint" where
  "checked_mod a b = (if b = 0 then Inl DivisionByZero else Inr (a mod b))"

definition checked_int_div :: "gint \<Rightarrow> gint \<Rightarrow> error + gint" where
  "checked_int_div a b =
     (if b = 0 then Inl DivisionByZero
      else if sint a = - (2 ^ 31) \<and> sint b = - 1 then Inl SignedOverflow
      else Inr (int_div a b))"

section \<open>The grid view\<close>

datatype GtkOrientation = GTK_ORIENTATION_HORIZONTAL | GTK_ORIENTATION_VERTICAL

datatype GtkScrollablePolicy = GTK_SCROLL_MINIMUM | GTK_SCROLL_NATURAL

datatype GtkTextDirection = GTK_TEXT_DIR_NONE | GTK_TEXT_DIR_LTR | GTK_TEXT_DIR_RTL

fun OPPOSITE_ORIENTATION :: "GtkOrientation \<Rightarrow> GtkOrientation" where
  "OPPOSITE_ORIENTATION GTK_ORIENTATION_HORIZONTAL = GTK_ORIENTATION_VERTICAL"
| "OPPOSITE_ORIENTATION GTK_ORIENTATION_VERTICAL = GTK_ORIENTATION_HORIZONTAL"

text \<open>
  What happens at a scroll-position store, in order: the grid view's handler is blocked
  or unblocked on it, the store is configured, the handler
  \<^verbatim>\<open>gtk_grid_view_adjustment_value_changed_cb\<close> is run by the store's notification.
\<close>

datatype event =
  HandlerBlocked GtkOrientation
| AdjustmentConfigured GtkOrientation
| HandlerInvoked GtkOrientation
| HandlerUnblocked GtkOrientation

text \<open>
  A \<^verbatim>\<open>GtkAdjustment\<close>: its six \<^verbatim>\<open>double\<close>s, and how many times the grid view's
  handler is blocked on it.  The type \<open>'d\<close> stands for \<^verbatim>\<open>double\<close>; its arithmetic is a
  parameter (\<open>double_ops\<close> below), so nothing proved here depends on how floating-point
  operations round.
\<close>

record 'd GtkAdjustment =
  adj_value :: 'd
  adj_lower :: 'd
  adj_upper :: 'd
  adj_step_increment :: 'd
  adj_page_increment :: 'd
  adj_page_size :: 'd
  handler_block_count :: nat

record 'd double_ops =
  d_of_int :: "int \<Rightarrow> 'd"
  d_to_int :: "'d \<Rightarrow> gint option"
  d_to_uint :: "'d \<Rightarrow> guint option"
  d_add :: "'d \<Rightarrow> 'd \<Rightarrow> 'd"
  d_sub :: "'d \<Rightarrow> 'd \<Rightarrow> 'd"
  d_mul :: "'d \<Rightarrow> 'd \<Rightarrow> 'd"
  d_div :: "'d \<Rightarrow> 'd \<Rightarrow> 'd"
  d_round :: "'d \<Rightarrow> 'd"
  d_floor :: "'d \<Rightarrow> 'd"
  d_ceil :: "'d \<Rightarrow> 'd"
  d_neq :: "'d \<Rightarrow> 'd \<Rightarrow> bool"
  d_tenth :: 'd
  d_nine_tenths :: 'd

text \<open>
  \<^verbatim>\<open>struct _GtkGridView\<close>.  \<open>item_manager\<close> is the root of the manager's tree,
  \<open>model_n_items\<close> is \<^verbatim>\<open>g_list_model_get_n_items (self->model)\<close>, \<open>anchor\<close> is the
  position of the anchor tracker, \<open>anchor_n_before\<close> and \<open>anchor_n_after\<close> are the
  numbers of items the tracker was told to keep before and after that position,
  \<open>direction\<close> is \<^verbatim>\<open>gtk_widget_get_direction\<close>,
  \<open>widget_size\<close> is \<^verbatim>\<open>gtk_widget_get_size\<close>, \<open>allocate_queued\<close> and \<open>resize_queued\<close>
  record \<^verbatim>\<open>gtk_widget_queue_allocate\<close> and \<^verbatim>\<open>gtk_widget_queue_resize\<close>, \<open>trace\<close> is
  the list of events at the stores so far.
  \<open>column_width\<close> is a \<^verbatim>\<open>double\<close> in C that only ever holds a quotient of two
  \<^verbatim>\<open>guint\<close>s or an \<^verbatim>\<open>int\<close> (\<^verbatim>\<open>gtk_grid_view_size_allocate\<close> is its only writer); a
  \<^verbatim>\<open>double\<close> holds every such integer exactly, so the field is an \<open>int\<close> here.
\<close>

record 'd GtkGridView =
  item_manager :: rbtree
  model_n_items :: guint
  adjustment :: "GtkOrientation \<Rightarrow> 'd GtkAdjustment"
  scroll_policy :: "GtkOrientation \<Rightarrow> GtkScrollablePolicy"
  orientation :: GtkOrientation
  min_columns :: guint
  max_columns :: guint
  n_columns :: guint
  column_width :: int
  unknown_row_height :: gint
  anchor :: guint
  anchor_n_before :: guint
  anchor_n_after :: guint
  anchor_xalign :: 'd
  anchor_yalign :: 'd
  anchor_xstart :: bool
  anchor_ystart :: bool
  direction :: GtkTextDirection
  widget_size :: "GtkOrientation \<Rightarrow> gint"
  allocate_queued :: bool
  resize_queued :: bool
  trace :: "event list"

section \<open>Geometry queries\<close>

text \<open>\<^verbatim>\<open>gtk_list_item_manager_get_item_augment\<close>: the augment of a node, \<open>None\<close> for
  \<^verbatim>\<open>NULL\<close>.  The refreshed caches are dropped: no query reads a dirty bit.\<close>

definition gtk_list_item_manager_get_item_augment :: "rbtree \<Rightarrow> CellAugment option" where
  "gtk_list_item_manager_get_item_augment t = snd (gtk_rb_tree_get_augment t)"

text \<open>The \<^verbatim>\<open>while (cell)\<close> loop of \<^verbatim>\<open>gtk_grid_view_get_cell_at_y\<close>: the cell it breaks
  at with the \<open>y\<close> and \<open>pos\<close> of that moment, or \<open>None\<close> when it runs off the tree.
  \<^verbatim>\<open>y < aug->size\<close> compares an \<^verbatim>\<open>int\<close> with a \<^verbatim>\<open>guint\<close>: unsigned.\<close>

fun cell_at_y_loop :: "rbtree \<Rightarrow> gint \<Rightarrow> guint \<Rightarrow> (Cell \<times> gint \<times> guint) option" where
  "cell_at_y_loop Leaf y pos = None"
| "cell_at_y_loop (Node l c a d r) y pos =
     (case gtk_list_item_manager_get_item_augment l of
        None \<Rightarrow>
          (if y < cell_size c then Some (c, y, pos)
           else cell_at_y_loop r (y - cell_size c) (pos + n_items c))
      | Some aug \<Rightarrow>
          (if y < aug_size aug then cell_at_y_loop l y pos
           else
             (let y = y - aug_size aug; pos = pos + aug_n_items aug
              in if y < cell_size c then Some (c, y, pos)
                 else cell_at_y_loop r (y - cell_size c) (pos + n_items c))))"

record cell_at_y_result =
  found_cell :: "Cell option"
  out_position :: guint
  out_offset :: gint
  out_size :: gint

text \<open>\<^verbatim>\<open>gtk_grid_view_get_cell_at_y\<close>, called with all three out-parameters (as its
  caller does).\<close>

definition gtk_grid_view_get_cell_at_y ::
  "('d, 'x) GtkGridView_scheme \<Rightarrow> gint \<Rightarrow> error + cell_at_y_result" where
  "gtk_grid_view_get_cell_at_y self y =
     (case cell_at_y_loop (item_manager self) y 0 of
        None \<Rightarrow> Inr \<lparr>found_cell = None, out_position = 0, out_offset = 0, out_size = 0\<rparr>
      | Some (cell, y, pos) \<Rightarrow>
          bind_err (checked_mod pos (n_columns self)) (\<lambda>m.
            let (n_items, pos) =
                  (if m \<noteq> 0 then (let skip = pos - m in (n_items cell - skip, pos + skip))
                   else (n_items cell, pos))
            in
            bind_err (checked_div (n_items - 1) (n_columns self)) (\<lambda>no_widget_rows.
            bind_err (checked_int_div y (unknown_row_height self)) (\<lambda>q.
              let skip = MIN_uint q no_widget_rows;
                  y = y - skip * unknown_row_height self;
                  pos = pos + n_columns self * skip
              in Inr \<lparr>found_cell = Some cell, out_position = pos, out_offset = y,
                      out_size = (if skip < no_widget_rows then unknown_row_height self
                                  else cell_size cell
                                         - no_widget_rows * unknown_row_height self)\<rparr>))))"

text \<open>The \<^verbatim>\<open>while (cell)\<close> loop of \<^verbatim>\<open>gtk_grid_view_get_size_at_position\<close>.\<close>

fun size_at_position_loop ::
  "rbtree \<Rightarrow> guint \<Rightarrow> gint \<Rightarrow> (Cell \<times> guint \<times> gint) option" where
  "size_at_position_loop Leaf position y = None"
| "size_at_position_loop (Node l c a d r) position y =
     (case gtk_list_item_manager_get_item_augment l of
        None \<Rightarrow>
          (if position < n_items c then Some (c, position, y)
           else size_at_position_loop r (position - n_items c) (y + cell_size c))
      | Some aug \<Rightarrow>
          (if position < aug_n_items aug then size_at_position_loop l position y
           else
             (let position = position - aug_n_items aug; y = y + aug_size aug
              in if position < n_items c then Some (c, position, y)
                 else size_at_position_loop r (position - n_items c) (y + cell_size c))))"

record size_at_position_result =
  cell_exists :: bool
  at_offset :: gint
  at_size :: gint

text \<open>\<^verbatim>\<open>gtk_grid_view_get_size_at_position\<close>, called with both out-parameters.\<close>

definition gtk_grid_view_get_size_at_position ::
  "('d, 'x) GtkGridView_scheme \<Rightarrow> guint \<Rightarrow> error + size_at_position_result" where
  "gtk_grid_view_get_size_at_position self position =
     bind_err (checked_mod position (n_columns self)) (\<lambda>m.
       case size_at_position_loop (item_manager self) (position - m) 0 of
         None \<Rightarrow> Inr \<lparr>cell_exists = False, at_offset = 0, at_size = 0\<rparr>
       | Some (cell, position, y) \<Rightarrow>
           bind_err (checked_mod position (n_columns self)) (\<lambda>m.
             let (n_items, position) =
                   (if m \<noteq> 0 then (n_items cell - m, position - m)
                    else (n_items cell, position))
             in
             bind_err (checked_div position (n_columns self)) (\<lambda>skip.
               let n_items = n_items - skip * n_columns self;
                   y = y + skip * unknown_row_height self
               in Inr \<lparr>cell_exists = True, at_offset = y,
                       at_size = (if n_columns self < n_items then unknown_row_height self
                                  else cell_size cell - skip * unknown_row_height self)\<rparr>)))"

section \<open>Totals of the index\<close>

text \<open>The height of all rows and the number of all items, as numbers (not modulo
  \<open>2 ^ 32\<close>).\<close>

definition content_height :: "rbtree \<Rightarrow> nat" where
  "content_height t = sum_list (map (\<lambda>c. unat (cell_size c)) (cells t))"

definition item_count :: "rbtree \<Rightarrow> nat" where
  "item_count t = sum_list (map (\<lambda>c. unat (n_items c)) (cells t))"

text \<open>The outcome \<^verbatim>\<open>NULL\<close> / \<^verbatim>\<open>FALSE\<close> with every out-parameter set to 0.\<close>

definition cell_not_found :: cell_at_y_result where
  "cell_not_found = \<lparr>found_cell = None, out_position = 0, out_offset = 0, out_size = 0\<rparr>"

definition position_not_found :: size_at_position_result where
  "position_not_found = \<lparr>cell_exists = False, at_offset = 0, at_size = 0\<rparr>"

section \<open>Row-height estimator\<close>

text \<open>\<^verbatim>\<open>compare_ints\<close>: \<^verbatim>\<open>*(int *) first - *(int *) second\<close>.\<close>

definition compare_ints :: "gint \<Rightarrow> gint \<Rightarrow> gint" where
  "compare_ints first second = first - second"

text \<open>
  \<^verbatim>\<open>g_array_sort\<close> is GLib's (\<^verbatim>\<open>qsort\<close> with the comparison function), not among the
  sources.  It is an insertion sort here that orders by the sign of what the comparison
  function returns, as any sort by comparison does.
\<close>

fun insert_sorted :: "('a \<Rightarrow> 'a \<Rightarrow> gint) \<Rightarrow> 'a \<Rightarrow> 'a list \<Rightarrow> 'a list" where
  "insert_sorted compare_func x [] = [x]"
| "insert_sorted compare_func x (y # ys) =
     (if compare_func x y \<le>s 0 then x # y # ys else y # insert_sorted compare_func x ys)"

definition g_array_sort :: "('a \<Rightarrow> 'a \<Rightarrow> gint) \<Rightarrow> 'a list \<Rightarrow> 'a list" where
  "g_array_sort compare_func xs = foldr (insert_sorted compare_func) xs []"

text \<open>\<^verbatim>\<open>gtk_grid_view_get_unknown_row_size\<close>; \<^verbatim>\<open>g_return_val_if_fail (heights->len > 0, 0)\<close>
  logs a critical warning and returns 0.\<close>

definition gtk_grid_view_get_unknown_row_size :: "gint list \<Rightarrow> gint" where
  "gtk_grid_view_get_unknown_row_size heights =
     (if \<not> 0 < length heights then 0
      else g_array_sort compare_ints heights ! (length heights div 2))"

section \<open>Column solver\<close>

definition gtk_grid_view_compute_n_columns ::
  "('d, 'x) GtkGridView_scheme \<Rightarrow> guint \<Rightarrow> gint \<Rightarrow> gint \<Rightarrow> error + guint" where
  "gtk_grid_view_compute_n_columns self for_size min_size nat_size =
     bind_err
       (if scroll_policy self (OPPOSITE_ORIENTATION (orientation self)) = GTK_SCROLL_MINIMUM
        then checked_div for_size (MAX_int 1 min_size)
        else checked_div for_size (MAX_int 1 nat_size))
       (\<lambda>n_columns. Inr (CLAMP n_columns (min_columns self) (max_columns self)))"

text \<open>\<^verbatim>\<open>gtk_widget_measure (widget, orientation, for_size, &min, &nat, NULL, NULL)\<close> of a
  child is a parameter of the layout functions.\<close>

type_synonym measure_fn = "nat \<Rightarrow> GtkOrientation \<Rightarrow> gint \<Rightarrow> gint \<times> gint"

definition gtk_grid_view_measure_column_size ::
  "measure_fn \<Rightarrow> ('d, 'x) GtkGridView_scheme \<Rightarrow> gint \<times> gint" where
  "gtk_grid_view_measure_column_size widget_measure self =
     foldl (\<lambda>(min_size, nat_size) cell.
              case widget cell of
                None \<Rightarrow> (min_size, nat_size)
              | Some w \<Rightarrow>
                  (let (child_min, child_nat) =
                         widget_measure w (OPPOSITE_ORIENTATION (orientation self)) (- 1)
                   in (MAX_int min_size child_min, MAX_int nat_size child_nat)))
           (0, 0) (cells (item_manager self))"

text \<open>Step 1 of \<^verbatim>\<open>gtk_grid_view_size_allocate\<close>: \<open>n_columns\<close> and \<open>column_width\<close>.
  \<^verbatim>\<open>width / self->n_columns\<close> divides an \<^verbatim>\<open>int\<close> by a \<^verbatim>\<open>guint\<close>: unsigned.\<close>

definition size_allocate_columns ::
  "measure_fn \<Rightarrow> ('d, 'x) GtkGridView_scheme \<Rightarrow> gint \<Rightarrow> gint \<Rightarrow>
     error + ('d, 'x) GtkGridView_scheme" where
  "size_allocate_columns widget_measure self width height =
     (let (col_min, col_nat) = gtk_grid_view_measure_column_size widget_measure self;
          available = (if orientation self = GTK_ORIENTATION_VERTICAL then width else height)
      in
      bind_err (gtk_grid_view_compute_n_columns self available col_min col_nat) (\<lambda>n.
        let self = self\<lparr>n_columns := n\<rparr> in
        bind_err (checked_div available (n_columns self)) (\<lambda>q.
          let self = self\<lparr>column_width := uint q\<rparr>;
              self = self\<lparr>column_width :=
                       (if sint col_min < column_width self then column_width self
                        else sint col_min)\<rparr>
          in Inr self)))"

section \<open>Layout pass\<close>

text \<open>The local variables of the loops of \<^verbatim>\<open>gtk_grid_view_size_allocate\<close>; \<open>lp_start\<close> is
  the rank of the cell \<^verbatim>\<open>start\<close> points to, \<open>None\<close> for \<^verbatim>\<open>NULL\<close>.\<close>

record alloc_loop =
  lp_i :: guint
  lp_row_height :: gint
  lp_start :: "nat option"
  lp_known :: bool
  lp_heights :: "gint list"
  lp_tree :: rbtree

text \<open>\<^verbatim>\<open>cell_set_size (start, start->size + extra)\<close>.\<close>

definition grow_cell :: "rbtree \<Rightarrow> nat option \<Rightarrow> guint \<Rightarrow> error + rbtree" where
  "grow_cell t start extra =
     (case start of
        None \<Rightarrow> Inl NullDereference
      | Some k \<Rightarrow>
          (if k < length (cells t)
           then Inr (fst (cell_set_size k (cell_size (cells t ! k) + extra) t))
           else Inl NullDereference))"

text \<open>\<^verbatim>\<open>self->column_width\<close> passed as the \<^verbatim>\<open>int for_size\<close> of
  \<^verbatim>\<open>gtk_widget_measure\<close>: a conversion, without a value out of the range of \<^verbatim>\<open>int\<close>.\<close>

definition column_width_to_int :: "int \<Rightarrow> error + gint" where
  "column_width_to_int w =
     (if - (2 ^ 31) \<le> w \<and> w < 2 ^ 31 then Inr (word_of_int w)
      else Inl UndefinedConversion)"

text \<open>Step 2, the body of the loop for the cell of rank \<open>k\<close>.\<close>

definition known_rows_cell ::
  "measure_fn \<Rightarrow> ('d, 'x) GtkGridView_scheme \<Rightarrow> alloc_loop \<Rightarrow> nat \<Rightarrow> error + alloc_loop" where
  "known_rows_cell widget_measure self st k =
     (let cell = cells (lp_tree st) ! k;
          start = (if lp_i st = 0 then Some k else lp_start st)
      in
      bind_err
        (case widget cell of
           None \<Rightarrow> Inr (lp_heights st, lp_row_height st)
         | Some w \<Rightarrow>
             bind_err (column_width_to_int (column_width self)) (\<lambda>for_size.
               let (min_size, nat_size) = widget_measure w (orientation self) for_size;
                   size = (if scroll_policy self (orientation self) = GTK_SCROLL_MINIMUM
                           then min_size else nat_size)
               in Inr (lp_heights st @ [size], MAX_int (lp_row_height st) size)))
        (\<lambda>(heights, row_height).
           let tree = fst (cell_set_size k 0 (lp_tree st));
               i = lp_i st + n_items cell
           in
           if n_columns self \<le> i then
             bind_err (checked_mod i (n_columns self)) (\<lambda>i.
             bind_err (grow_cell tree start row_height) (\<lambda>tree.
               Inr (st\<lparr>lp_i := i, lp_row_height := 0, lp_start := Some k,
                       lp_heights := heights, lp_tree := tree\<rparr>)))
           else
             Inr (st\<lparr>lp_i := i, lp_row_height := row_height, lp_start := start,
                     lp_heights := heights, lp_tree := tree\<rparr>)))"

text \<open>Step 2: the heights of the rows with a realized item.\<close>

definition size_allocate_known_rows ::
  "measure_fn \<Rightarrow> ('d, 'x) GtkGridView_scheme \<Rightarrow> error + alloc_loop" where
  "size_allocate_known_rows widget_measure self =
     bind_err
       (fold_err (known_rows_cell widget_measure self)
          [0 ..< n_nodes (item_manager self)]
          \<lparr>lp_i = 0, lp_row_height = 0, lp_start = None, lp_known = False,
           lp_heights = [], lp_tree = item_manager self\<rparr>)
       (\<lambda>st.
          if 0 < lp_i st then
            bind_err (grow_cell (lp_tree st) (lp_start st) (lp_row_height st)) (\<lambda>tree.
              Inr (st\<lparr>lp_tree := tree\<rparr>))
          else Inr st)"

text \<open>Step 3, the body of the loop for the cell of rank \<open>k\<close>.\<close>

definition unknown_rows_cell ::
  "('d, 'x) GtkGridView_scheme \<Rightarrow> alloc_loop \<Rightarrow> nat \<Rightarrow> error + alloc_loop" where
  "unknown_rows_cell self st k =
     (let cell = cells (lp_tree st) ! k;
          start = (if lp_i st = 0 then Some k else lp_start st);
          known = (lp_known st \<or> widget cell \<noteq> None);
          i = lp_i st + n_items cell
      in
      if n_columns self \<le> i then
        bind_err (if \<not> known then grow_cell (lp_tree st) start (unknown_row_height self)
                  else Inr (lp_tree st)) (\<lambda>tree.
          let i = i - n_columns self in
          if n_columns self \<le> i then
            bind_err (checked_div i (n_columns self)) (\<lambda>q.
            bind_err (grow_cell tree (Some k) (unknown_row_height self * q)) (\<lambda>tree.
            bind_err (checked_mod i (n_columns self)) (\<lambda>i.
              Inr (st\<lparr>lp_i := i, lp_start := Some k, lp_known := False, lp_tree := tree\<rparr>))))
          else
            Inr (st\<lparr>lp_i := i, lp_start := Some k, lp_known := False, lp_tree := tree\<rparr>))
      else
        Inr (st\<lparr>lp_i := i, lp_start := start, lp_known := known\<rparr>))"

text \<open>Step 3: \<open>unknown_row_height\<close>, and the heights of the rows without a realized
  item.\<close>

definition size_allocate_unknown_rows ::
  "('d, 'x) GtkGridView_scheme \<Rightarrow> alloc_loop \<Rightarrow> error + ('d, 'x) GtkGridView_scheme" where
  "size_allocate_unknown_rows self known_rows =
     (let self = self\<lparr>unknown_row_height :=
                        gtk_grid_view_get_unknown_row_size (lp_heights known_rows)\<rparr>
      in
      bind_err
        (fold_err (unknown_rows_cell self)
           [0 ..< n_nodes (lp_tree known_rows)]
           \<lparr>lp_i = 0, lp_row_height = 0,
            lp_start = (if lp_tree known_rows = Leaf then None else Some 0),
            lp_known = False, lp_heights = [], lp_tree = lp_tree known_rows\<rparr>)
        (\<lambda>st.
           bind_err
             (if 0 < lp_i st \<and> \<not> lp_known st
              then grow_cell (lp_tree st) (lp_start st) (unknown_row_height self)
              else Inr (lp_tree st))
             (\<lambda>tree. Inr (self\<lparr>item_manager := tree\<rparr>))))"

section \<open>Scroll-anchor controller\<close>

definition MIN_int :: "gint \<Rightarrow> gint \<Rightarrow> gint" where
  "MIN_int a b = (if a <s b then a else b)"

text \<open>A conversion from \<^verbatim>\<open>double\<close> to an integer type has no value when the number
  is out of the type's range.\<close>

definition convert :: "'a option \<Rightarrow> error + 'a" where
  "convert v = (case v of None \<Rightarrow> Inl UndefinedConversion | Some x \<Rightarrow> Inr x)"

text \<open>
  Modelled from the spec: \<^verbatim>\<open>gtk_list_item_tracker_set_position\<close>
  (gtklistitemmanager.c) is not among the sources.  The anchor ``identifies one item
  position''; the call stores the position and the two ranges it is given.  What the
  tracker then does to the realized items is outside this model.
\<close>

definition gtk_list_item_tracker_set_position ::
  "('d, 'x) GtkGridView_scheme \<Rightarrow> guint \<Rightarrow> guint \<Rightarrow> guint \<Rightarrow> ('d, 'x) GtkGridView_scheme" where
  "gtk_list_item_tracker_set_position self position n_before n_after =
     self\<lparr>anchor := position, anchor_n_before := n_before, anchor_n_after := n_after\<rparr>"

text \<open>
  The two ranges that \<^verbatim>\<open>gtk_grid_view_set_anchor\<close> hands to the tracker, as the
  \<^verbatim>\<open>double\<close>s they are computed as:
  \<^verbatim>\<open>(GTK_GRID_VIEW_MIN_VISIBLE_ROWS * yalign + 1) * self->max_columns\<close> and
  \<^verbatim>\<open>(GTK_GRID_VIEW_MIN_VISIBLE_ROWS * (1 - yalign) + 1) * self->max_columns\<close>.
\<close>

definition anchor_items_before ::
  "('d, 'y) double_ops_scheme \<Rightarrow> ('d, 'x) GtkGridView_scheme \<Rightarrow> 'd \<Rightarrow> 'd" where
  "anchor_items_before ops self yalign =
     d_mul ops
       (d_add ops (d_mul ops (d_of_int ops GTK_GRID_VIEW_MIN_VISIBLE_ROWS) yalign)
          (d_of_int ops 1))
       (d_of_int ops (uint (max_columns self)))"

definition anchor_items_after ::
  "('d, 'y) double_ops_scheme \<Rightarrow> ('d, 'x) GtkGridView_scheme \<Rightarrow> 'd \<Rightarrow> 'd" where
  "anchor_items_after ops self yalign =
     d_mul ops
       (d_add ops
          (d_mul ops (d_of_int ops GTK_GRID_VIEW_MIN_VISIBLE_ROWS)
             (d_sub ops (d_of_int ops 1) yalign))
          (d_of_int ops 1))
       (d_of_int ops (uint (max_columns self)))"

text \<open>
  \<^verbatim>\<open>gtk_grid_view_set_anchor\<close>.  The two ranges are passed to \<^verbatim>\<open>guint\<close>
  parameters: each is converted, and a range that is out of the range of \<^verbatim>\<open>guint\<close>
  has no value.
\<close>

definition gtk_grid_view_set_anchor ::
  "('d, 'y) double_ops_scheme \<Rightarrow> ('d, 'x) GtkGridView_scheme \<Rightarrow> guint \<Rightarrow> 'd \<Rightarrow> bool \<Rightarrow> 'd \<Rightarrow>
     bool \<Rightarrow> error + ('d, 'x) GtkGridView_scheme" where
  "gtk_grid_view_set_anchor ops self position xalign xstart yalign ystart =
     bind_err (convert (d_to_uint ops (anchor_items_before ops self yalign))) (\<lambda>n_before.
     bind_err (convert (d_to_uint ops (anchor_items_after ops self yalign))) (\<lambda>n_after.
       let self = gtk_list_item_tracker_set_position self position n_before n_after in
       Inr (if d_neq ops (anchor_xalign self) xalign \<or> anchor_xstart self \<noteq> xstart \<or>
               d_neq ops (anchor_yalign self) yalign \<or> anchor_ystart self \<noteq> ystart
            then self\<lparr>anchor_xalign := xalign, anchor_xstart := xstart,
                      anchor_yalign := yalign, anchor_ystart := ystart,
                      allocate_queued := True\<rparr>
            else self)))"

definition gtk_grid_view_adjustment_is_flipped ::
  "('d, 'x) GtkGridView_scheme \<Rightarrow> GtkOrientation \<Rightarrow> bool" where
  "gtk_grid_view_adjustment_is_flipped self orientation' =
     (if orientation' = GTK_ORIENTATION_VERTICAL then False
      else direction self = GTK_TEXT_DIR_RTL)"

record 'd anchor_choice =
  ac_pos :: guint
  ac_xalign :: 'd
  ac_xstart :: bool
  ac_yalign :: 'd
  ac_ystart :: bool

text \<open>Which edge of a cell with the given \<open>top\<close> and \<open>bottom\<close> to anchor
  (the four-way \<^verbatim>\<open>if\<close> that the handler has once per axis).\<close>

definition anchor_to_start :: "gint \<Rightarrow> gint \<Rightarrow> gint \<Rightarrow> gint \<Rightarrow> bool" where
  "anchor_to_start top' bottom' page_size from_start =
     (if 0 <s top' \<and> bottom' <s page_size then from_start - top' \<le>s bottom' - from_start
      else if 0 <s top' then True
      else if bottom' <s page_size then False
      else from_start - top' \<le>s bottom' - from_start)"

text \<open>
  \<^verbatim>\<open>gtk_grid_view_adjustment_value_changed_cb\<close> up to the last-row test: the position
  and alignment derived from the store \<open>which\<close> that changed.
\<close>

definition derive_anchor ::
  "('d, 'y) double_ops_scheme \<Rightarrow> GtkOrientation \<Rightarrow> ('d, 'x) GtkGridView_scheme \<Rightarrow>
     error + 'd anchor_choice" where
  "derive_anchor ops which self =
     bind_err (convert (d_to_int ops (adj_page_size (adjustment self which)))) (\<lambda>page_size.
     bind_err (convert (d_to_int ops (adj_value (adjustment self which)))) (\<lambda>value.
     bind_err (convert (d_to_int ops (adj_upper (adjustment self which)))) (\<lambda>total_size.
     let anchor_pos = anchor self;
         n_items = model_n_items self;
         value = (if gtk_grid_view_adjustment_is_flipped self (orientation self)
                  then total_size - page_size - value else value)
     in
     if which = orientation self then
       (let yalign = d_div ops (d_of_int ops (sint value))
                       (d_of_int ops (sint (total_size - page_size)))
        in
        bind_err (convert (d_to_int ops
                    (d_round ops (d_mul ops yalign (d_of_int ops (sint page_size))))))
          (\<lambda>from_start.
        bind_err (gtk_grid_view_get_cell_at_y self (value + from_start)) (\<lambda>res.
        bind_err
          (if found_cell res \<noteq> None then
             (let top' = from_start - out_offset res;
                  bottom' = top' + out_size res;
                  ystart = anchor_to_start top' bottom' page_size from_start;
                  yalign = d_div ops (d_of_int ops (sint (if ystart then top' else bottom')))
                             (d_of_int ops (sint page_size))
              in Inr (out_position res, yalign, ystart))
           else
             (let pos = n_items - 1 in
              bind_err (checked_mod pos (n_columns self)) (\<lambda>m.
                Inr (pos - m, d_of_int ops 1, False))))
          (\<lambda>(pos, yalign, ystart).
        bind_err (checked_mod anchor_pos (n_columns self)) (\<lambda>anchor_pos.
          Inr \<lparr>ac_pos = pos + anchor_pos, ac_xalign = anchor_xalign self,
               ac_xstart = anchor_xstart self, ac_yalign = yalign,
               ac_ystart = ystart\<rparr>)))))
     else
       (let xalign = d_div ops (d_of_int ops (sint value))
                       (d_of_int ops (sint (total_size - page_size)))
        in
        bind_err (convert (d_to_int ops
                    (d_round ops (d_mul ops xalign (d_of_int ops (sint page_size))))))
          (\<lambda>from_start.
        bind_err (convert (d_to_uint ops
                    (d_floor ops (d_div ops (d_of_int ops (sint (value + from_start)))
                                            (d_of_int ops (column_width self))))))
          (\<lambda>pos.
        bind_err
          (if n_columns self \<le> pos then
             Inr (n_columns self - 1, False, d_of_int ops 1)
           else
             bind_err (convert (d_to_int ops
                         (d_sub ops
                            (d_ceil ops (d_mul ops (d_of_int ops (column_width self))
                                                   (d_of_int ops (uint pos))))
                            (d_of_int ops (sint value))))) (\<lambda>top'.
             bind_err (convert (d_to_int ops
                         (d_sub ops
                            (d_ceil ops (d_mul ops (d_of_int ops (column_width self))
                                                   (d_of_int ops (uint (pos + 1)))))
                            (d_of_int ops (sint value))))) (\<lambda>bottom'.
               let xstart = anchor_to_start top' bottom' page_size from_start;
                   xalign = d_div ops (d_of_int ops (sint (if xstart then top' else bottom')))
                              (d_of_int ops (sint page_size))
               in Inr (pos, xstart, xalign))))
          (\<lambda>(pos, xstart, xalign).
        bind_err (checked_mod anchor_pos (n_columns self)) (\<lambda>m.
          Inr \<lparr>ac_pos = pos + (anchor_pos - m), ac_xalign = xalign, ac_xstart = xstart,
               ac_yalign = anchor_yalign self, ac_ystart = anchor_ystart self\<rparr>))))))))"

text \<open>\<^verbatim>\<open>gtk_grid_view_adjustment_value_changed_cb\<close>: the derived anchor, the last-row
  test, \<^verbatim>\<open>gtk_grid_view_set_anchor\<close> and \<^verbatim>\<open>gtk_widget_queue_allocate\<close>.\<close>

definition gtk_grid_view_adjustment_value_changed_cb ::
  "('d, 'y) double_ops_scheme \<Rightarrow> GtkOrientation \<Rightarrow> ('d, 'x) GtkGridView_scheme \<Rightarrow>
     error + ('d, 'x) GtkGridView_scheme" where
  "gtk_grid_view_adjustment_value_changed_cb ops which self =
     bind_err (derive_anchor ops which self) (\<lambda>derived.
     bind_err
       (if model_n_items self \<le> ac_pos derived then
          (let adjustment' = adjustment self (OPPOSITE_ORIENTATION (orientation self));
               pos = model_n_items self - 1
           in
           bind_err (checked_mod pos (n_columns self)) (\<lambda>m.
             Inr (derived\<lparr>ac_pos := pos, ac_xstart := False,
                    ac_xalign :=
                      d_div ops
                        (d_sub ops
                           (d_ceil ops (d_mul ops (d_of_int ops (column_width self))
                                                  (d_of_int ops (uint (m + 1)))))
                           (adj_value adjustment'))
                        (adj_page_size adjustment')\<rparr>)))
        else Inr derived)
       (\<lambda>chosen.
          bind_err (gtk_grid_view_set_anchor ops self (ac_pos chosen) (ac_xalign chosen)
                      (ac_xstart chosen) (ac_yalign chosen) (ac_ystart chosen)) (\<lambda>self.
            Inr (self\<lparr>allocate_queued := True\<rparr>))))"

text \<open>The alignment across the grid that the handler computes in its last-row branch,
  for \<^verbatim>\<open>pos = n_items - 1\<close>, from the value and the page size of the store of that
  direction:
  \<^verbatim>\<open>(ceil (self->column_width * (pos % self->n_columns + 1)) - value) / page_size\<close>.\<close>

definition last_row_xalign ::
  "('d, 'y) double_ops_scheme \<Rightarrow> ('d, 'x) GtkGridView_scheme \<Rightarrow> 'd" where
  "last_row_xalign ops self =
     d_div ops
       (d_sub ops
          (d_ceil ops
             (d_mul ops (d_of_int ops (column_width self))
                (d_of_int ops (uint ((model_n_items self - 1) mod n_columns self + 1)))))
          (adj_value (adjustment self (OPPOSITE_ORIENTATION (orientation self)))))
       (adj_page_size (adjustment self (OPPOSITE_ORIENTATION (orientation self))))"

text \<open>
  Modelled from the spec: GObject's \<^verbatim>\<open>g_signal_handlers_block_by_func\<close> and
  \<^verbatim>\<open>g_signal_handlers_unblock_by_func\<close>, and \<^verbatim>\<open>gtk_adjustment_configure\<close>
  (gtkadjustment.c), are not among the sources.  A store ``exposes value, page_size,
  upper_bound, and a change notification''; a handler that is blocked is not run; each
  block is undone by one unblock.  Configuring a store sets its fields and, when the
  value is a different one, notifies: the grid view's handler runs unless it is blocked.
\<close>

definition g_signal_handlers_block_by_func ::
  "('d, 'x) GtkGridView_scheme \<Rightarrow> GtkOrientation \<Rightarrow> ('d, 'x) GtkGridView_scheme" where
  "g_signal_handlers_block_by_func self which =
     self\<lparr>adjustment := (adjustment self)
             (which := (adjustment self which)
                \<lparr>handler_block_count := Suc (handler_block_count (adjustment self which))\<rparr>),
          trace := trace self @ [HandlerBlocked which]\<rparr>"

definition g_signal_handlers_unblock_by_func ::
  "('d, 'x) GtkGridView_scheme \<Rightarrow> GtkOrientation \<Rightarrow> ('d, 'x) GtkGridView_scheme" where
  "g_signal_handlers_unblock_by_func self which =
     self\<lparr>adjustment := (adjustment self)
             (which := (adjustment self which)
                \<lparr>handler_block_count := handler_block_count (adjustment self which) - 1\<rparr>),
          trace := trace self @ [HandlerUnblocked which]\<rparr>"

definition gtk_adjustment_configure ::
  "('d, 'y) double_ops_scheme \<Rightarrow> ('d, 'x) GtkGridView_scheme \<Rightarrow> GtkOrientation \<Rightarrow>
     'd \<Rightarrow> 'd \<Rightarrow> 'd \<Rightarrow> 'd \<Rightarrow> 'd \<Rightarrow> 'd \<Rightarrow> error + ('d, 'x) GtkGridView_scheme" where
  "gtk_adjustment_configure ops self which value lower upper step_increment page_increment
       page_size =
     (let old = adjustment self which;
          value_changed = d_neq ops (adj_value old) value;
          self = self\<lparr>adjustment := (adjustment self)
                   (which := old\<lparr>adj_value := value, adj_lower := lower, adj_upper := upper,
                                  adj_step_increment := step_increment,
                                  adj_page_increment := page_increment,
                                  adj_page_size := page_size\<rparr>),
                 trace := trace self @ [AdjustmentConfigured which]\<rparr>
      in
      if value_changed \<and> handler_block_count old = 0 then
        gtk_grid_view_adjustment_value_changed_cb ops which
          (self\<lparr>trace := trace self @ [HandlerInvoked which]\<rparr>)
      else Inr self)"

text \<open>\<^verbatim>\<open>gtk_grid_view_update_adjustment_with_values\<close>: the value it returns and the
  grid view after it.\<close>

definition gtk_grid_view_update_adjustment_with_values ::
  "('d, 'y) double_ops_scheme \<Rightarrow> ('d, 'x) GtkGridView_scheme \<Rightarrow> GtkOrientation \<Rightarrow>
     gint \<Rightarrow> gint \<Rightarrow> gint \<Rightarrow> error + (gint \<times> ('d, 'x) GtkGridView_scheme)" where
  "gtk_grid_view_update_adjustment_with_values ops self orientation' value upper page_size =
     (let upper = MAX_int upper page_size;
          value = MAX_int 0 value;
          value = MIN_int value (upper - page_size);
          self = g_signal_handlers_block_by_func self orientation';
          value = (if gtk_grid_view_adjustment_is_flipped self orientation'
                   then upper - page_size - value else value)
      in
      bind_err
        (gtk_adjustment_configure ops self orientation'
           (d_of_int ops (sint value))
           (d_of_int ops 0)
           (d_of_int ops (sint upper))
           (d_mul ops (d_of_int ops (sint page_size)) (d_tenth ops))
           (d_mul ops (d_of_int ops (sint page_size)) (d_nine_tenths ops))
           (d_of_int ops (sint page_size)))
        (\<lambda>self. Inr (value, g_signal_handlers_unblock_by_func self orientation')))"

text \<open>\<^verbatim>\<open>gtk_grid_view_update_adjustment\<close>.\<close>

definition gtk_grid_view_update_adjustment ::
  "('d, 'y) double_ops_scheme \<Rightarrow> ('d, 'x) GtkGridView_scheme \<Rightarrow> GtkOrientation \<Rightarrow>
     error + (gint \<times> ('d, 'x) GtkGridView_scheme)" where
  "gtk_grid_view_update_adjustment ops self orientation' =
     (let anchor_pos = anchor self in
      if anchor_pos = GTK_INVALID_LIST_POSITION then
        bind_err (gtk_grid_view_update_adjustment_with_values ops self orientation' 0 0 0)
          (\<lambda>(value, self). Inr (0, self))
      else
        (let page_size = widget_size self orientation' in
         if orientation self = orientation' then
           (case gtk_list_item_manager_get_item_augment (item_manager self) of
              None \<Rightarrow> Inl AssertionFailed
            | Some aug \<Rightarrow>
                bind_err (gtk_grid_view_get_size_at_position self anchor_pos) (\<lambda>res.
                  if \<not> cell_exists res then Inl AssertionFailed
                  else
                    (let value = at_offset res;
                         value = (if \<not> anchor_ystart self then value + at_size res else value)
                     in
                     bind_err (convert (d_to_int ops
                                 (d_sub ops (d_of_int ops (sint value))
                                    (d_mul ops (anchor_yalign self)
                                       (d_of_int ops (sint page_size)))))) (\<lambda>value.
                       gtk_grid_view_update_adjustment_with_values ops self
                         (orientation self) value (aug_size aug) page_size))))
         else
           bind_err (checked_mod anchor_pos (n_columns self)) (\<lambda>i.
           bind_err (convert (d_to_int ops
                       (d_ceil ops
                          (d_mul ops (d_of_int ops (column_width self))
                             (d_of_int ops (uint (if anchor_xstart self then i else i + 1)))))))
             (\<lambda>value.
           bind_err (convert (d_to_int ops
                       (d_round ops
                          (d_mul ops (d_of_int ops (uint (n_columns self)))
                             (d_of_int ops (column_width self)))))) (\<lambda>total_size.
           bind_err (convert (d_to_int ops
                       (d_sub ops (d_of_int ops (sint value))
                          (d_mul ops (anchor_xalign self)
                             (d_of_int ops (sint page_size)))))) (\<lambda>value.
             gtk_grid_view_update_adjustment_with_values ops self
               (OPPOSITE_ORIENTATION (orientation self)) value total_size page_size))))))"

text \<open>
  \<^verbatim>\<open>gtk_grid_view_size_allocate\<close>, steps 0 to 4.  The loop after step 4 hands every
  realized child its rectangle (\<^verbatim>\<open>gtk_widget_size_allocate\<close> of the child) and writes
  nothing of the grid view; it is not part of the state here.
\<close>

definition gtk_grid_view_size_allocate ::
  "('d, 'y) double_ops_scheme \<Rightarrow> measure_fn \<Rightarrow> ('d, 'x) GtkGridView_scheme \<Rightarrow> gint \<Rightarrow> gint \<Rightarrow>
     error + ('d, 'x) GtkGridView_scheme" where
  "gtk_grid_view_size_allocate ops widget_measure self width height =
     (if item_manager self = Leaf then Inr self
      else
        bind_err (size_allocate_columns widget_measure self width height) (\<lambda>self.
        bind_err (size_allocate_known_rows widget_measure self) (\<lambda>known_rows.
        bind_err (size_allocate_unknown_rows self known_rows) (\<lambda>self.
        bind_err (gtk_grid_view_update_adjustment ops self
                    (OPPOSITE_ORIENTATION (orientation self))) (\<lambda>(x, self).
        bind_err (gtk_grid_view_update_adjustment ops self (orientation self)) (\<lambda>(y, self).
          Inr self))))))"

section \<open>Column limits\<close>

text \<open>\<^verbatim>\<open>gtk_grid_view_set_max_columns\<close> and \<^verbatim>\<open>gtk_grid_view_set_min_columns\<close>;
  \<^verbatim>\<open>g_return_if_fail\<close> returns without a change.\<close>

definition gtk_grid_view_set_max_columns ::
  "('d, 'y) double_ops_scheme \<Rightarrow> ('d, 'x) GtkGridView_scheme \<Rightarrow> guint \<Rightarrow>
     error + ('d, 'x) GtkGridView_scheme" where
  "gtk_grid_view_set_max_columns ops self max_columns' =
     (if \<not> 0 < max_columns' then Inr self
      else if max_columns self = max_columns' then Inr self
      else
        (let self = self\<lparr>max_columns := max_columns'\<rparr> in
         bind_err (gtk_grid_view_set_anchor ops self (anchor self) (anchor_xalign self)
                     (anchor_xstart self) (anchor_yalign self) (anchor_ystart self)) (\<lambda>self.
           Inr (self\<lparr>resize_queued := True\<rparr>))))"

definition gtk_grid_view_set_min_columns ::
  "('d, 'x) GtkGridView_scheme \<Rightarrow> guint \<Rightarrow> ('d, 'x) GtkGridView_scheme" where
  "gtk_grid_view_set_min_columns self min_columns' =
     (if \<not> 0 < min_columns' then self
      else if min_columns self = min_columns' then self
      else self\<lparr>min_columns := min_columns', resize_queued := True\<rparr>)"

section \<open>Construction\<close>

text \<open>\<^verbatim>\<open>gtk_adjustment_new (0.0, 0.0, 0.0, 0.0, 0.0, 0.0)\<close>, no handler blocked.\<close>

definition gtk_adjustment_new_zero :: "('d, 'y) double_ops_scheme \<Rightarrow> 'd GtkAdjustment" where
  "gtk_adjustment_new_zero ops =
     \<lparr>adj_value = d_of_int ops 0, adj_lower = d_of_int ops 0, adj_upper = d_of_int ops 0,
      adj_step_increment = d_of_int ops 0, adj_page_increment = d_of_int ops 0,
      adj_page_size = d_of_int ops 0, handler_block_count = 0\<rparr>"

text \<open>\<^verbatim>\<open>gtk_grid_view_init\<close> on the zero-filled instance that GObject hands it: no model,
  an empty tree, a tracker without a position.\<close>

definition gtk_grid_view_init :: "('d, 'y) double_ops_scheme \<Rightarrow> 'd GtkGridView" where
  "gtk_grid_view_init ops =
     \<lparr>item_manager = Leaf,
      model_n_items = 0,
      adjustment = (\<lambda>_. gtk_adjustment_new_zero ops),
      scroll_policy = (\<lambda>_. GTK_SCROLL_MINIMUM),
      orientation = GTK_ORIENTATION_VERTICAL,
      min_columns = 1,
      max_columns = DEFAULT_MAX_COLUMNS,
      n_columns = 0,
      column_width = 0,
      unknown_row_height = 0,
      anchor = GTK_INVALID_LIST_POSITION,
      anchor_n_before = 0,
      anchor_n_after = 0,
      anchor_xalign = d_of_int ops 0,
      anchor_yalign = d_of_int ops 0,
      anchor_xstart = False,
      anchor_ystart = False,
      direction = GTK_TEXT_DIR_LTR,
      widget_size = (\<lambda>_. 0),
      allocate_queued = False,
      resize_queued = False,
      trace = []\<rparr>"

text \<open>
  Idealised doubles for evaluating the functions at concrete inputs: real numbers with
  exact arithmetic, C's rounding functions, and conversions to integers that truncate
  and have no value out of range.  A quotient by zero is 0 here, where a \<^verbatim>\<open>double\<close>
  is an infinity or not a number; the examples below divide by no zero, and every
  number in them is one a \<^verbatim>\<open>double\<close> holds exactly.
\<close>

definition real_trunc :: "real \<Rightarrow> int" where
  "real_trunc x = (if 0 \<le> x then \<lfloor>x\<rfloor> else \<lceil>x\<rceil>)"

definition exact_ops :: "real double_ops" where
  "exact_ops =
     \<lparr>d_of_int = real_of_int,
      d_to_int = (\<lambda>x. if - (2 ^ 31) \<le> real_trunc x \<and> real_trunc x < 2 ^ 31
                       then Some (word_of_int (real_trunc x)) else None),
      d_to_uint = (\<lambda>x. if 0 \<le> real_trunc x \<and> real_trunc x < 2 ^ 32
                        then Some (word_of_int (real_trunc x)) else None),
      d_add = (+), d_sub = (-), d_mul = (*), d_div = (/),
      d_round = (\<lambda>x. real_of_int (if 0 \<le> x then \<lfloor>x + 1 / 2\<rfloor> else \<lceil>x - 1 / 2\<rceil>)),
      d_floor = (\<lambda>x. real_of_int \<lfloor>x\<rfloor>),
      d_ceil = (\<lambda>x. real_of_int \<lceil>x\<rceil>),
      d_neq = (\<noteq>),
      d_tenth = 1 / 10,
      d_nine_tenths = 9 / 10\<rparr>"

section \<open>The contracts of the spec, in its own words\<close>

text \<open>
  Section 4.3: \<open>n_columns = clamp(available_size / (size_policy == MINIMIZE ?
  max(1,measured_min) : max(1,measured_nat)), min_columns, max_columns)\<close> and
  \<open>column_width = max(available_size / n_columns, measured_min)\<close>, over the integers.
  \<open>clamp\<close> cuts at the upper bound first, as GLib's macro of that name does; with
  \<open>lo \<le> hi\<close> that is \<open>max lo (min x hi)\<close>.
\<close>

definition spec_clamp :: "int \<Rightarrow> int \<Rightarrow> int \<Rightarrow> int" where
  "spec_clamp x lo hi = (if hi < x then hi else if x < lo then lo else x)"

definition spec_n_columns ::
  "int \<Rightarrow> int \<Rightarrow> int \<Rightarrow> GtkScrollablePolicy \<Rightarrow> int \<Rightarrow> int \<Rightarrow> int" where
  "spec_n_columns available_size measured_min measured_nat size_policy min_cols max_cols =
     spec_clamp
       (available_size div
          (if size_policy = GTK_SCROLL_MINIMUM then max 1 measured_min
           else max 1 measured_nat))
       min_cols max_cols"

definition spec_column_width :: "int \<Rightarrow> int \<Rightarrow> int \<Rightarrow> int" where
  "spec_column_width available_size n_cols measured_min =
     max (available_size div n_cols) measured_min"

text \<open>\<^verbatim>\<open>compare_ints\<close> subtracts two \<^verbatim>\<open>int\<close>s; the difference of these two is one.\<close>

definition difference_fits :: "gint \<Rightarrow> gint \<Rightarrow> bool" where
  "difference_fits a b = (- (2 ^ 31) \<le> sint a - sint b \<and> sint a - sint b < 2 ^ 31)"

section \<open>Example states\<close>

text \<open>A child whose minimum size is 20 and whose natural size is 34 in the direction
  across the grid, and 10 along it; the grid view with that one child, as the spec's
  column solver example has it.\<close>

definition measure_20_34 :: measure_fn where
  "measure_20_34 w orientation' for_size =
     (if orientation' = GTK_ORIENTATION_HORIZONTAL then (20, 34) else (10, 10))"

definition one_child_view :: "real GtkGridView" where
  "one_child_view =
     (gtk_grid_view_init exact_ops)
       \<lparr>item_manager := new_node Leaf \<lparr>n_items = 1, widget = Some 0, cell_size = 0\<rparr> Leaf,
        model_n_items := 1,
        scroll_policy := (\<lambda>_. GTK_SCROLL_NATURAL)\<rparr>"

text \<open>A list of six items in three columns: item 0 is realized, items 1 to 5 are one
  run without a widget that starts in the middle of row 0 and covers row 1.  Before the
  layout pass no size is set; \<open>mid_row_run_view\<close> is the grid view after it, every row 10
  high.\<close>

definition measure_10 :: measure_fn where
  "measure_10 w orientation' for_size = (10, 10)"

definition mid_row_run_before :: "real GtkGridView" where
  "mid_row_run_before =
     (gtk_grid_view_init exact_ops)
       \<lparr>item_manager :=
          new_node Leaf \<lparr>n_items = 1, widget = Some 0, cell_size = 0\<rparr>
            (new_node Leaf \<lparr>n_items = 5, widget = None, cell_size = 0\<rparr> Leaf),
        model_n_items := 6\<rparr>"

definition mid_row_run_view :: "real GtkGridView" where
  "mid_row_run_view =
     (gtk_grid_view_init exact_ops)
       \<lparr>item_manager :=
          new_node Leaf \<lparr>n_items = 1, widget = Some 0, cell_size = 10\<rparr>
            (new_node Leaf \<lparr>n_items = 5, widget = None, cell_size = 10\<rparr> Leaf),
        model_n_items := 6,
        n_columns := 3,
        column_width := 10,
        unknown_row_height := 10\<rparr>"

text \<open>A list of five items, none realized, whose last layout pass estimated rows 17
  high.\<close>

definition nothing_realized_view :: "real GtkGridView" where
  "nothing_realized_view =
     (gtk_grid_view_init exact_ops)
       \<lparr>item_manager := new_node Leaf \<lparr>n_items = 5, widget = None, cell_size = 34\<rparr> Leaf,
        model_n_items := 5,
        n_columns := 3,
        column_width := 10,
        unknown_row_height := 17\<rparr>"

text \<open>A list of four items in three columns, rows 10 high: the last row holds item 3
  only.\<close>

definition short_last_row_view :: "real GtkGridView" where
  "short_last_row_view =
     (gtk_grid_view_init exact_ops)
       \<lparr>item_manager := new_node Leaf \<lparr>n_items = 4, widget = None, cell_size = 20\<rparr> Leaf,
        model_n_items := 4,
        n_columns := 3,
        column_width := 10,
        unknown_row_height := 10\<rparr>"

text \<open>\<open>short_last_row_view\<close> with the anchor on item 2 (the last column of row 0), a
  viewport 10 high and 20 wide, scrolled down by 5.\<close>

definition scrolled_view :: "real GtkGridView" where
  "scrolled_view =
     short_last_row_view
       \<lparr>anchor := 2,
        adjustment := (\<lambda>which.
          if which = GTK_ORIENTATION_VERTICAL
          then \<lparr>adj_value = 5, adj_lower = 0, adj_upper = 20, adj_step_increment = 1,
                adj_page_increment = 9, adj_page_size = 10, handler_block_count = 0\<rparr>
          else \<lparr>adj_value = 0, adj_lower = 0, adj_upper = 30, adj_step_increment = 2,
                adj_page_increment = 18, adj_page_size = 20, handler_block_count = 0\<rparr>),
        widget_size := (\<lambda>which. if which = GTK_ORIENTATION_VERTICAL then 10 else 20)\<rparr>"


text \<open>A grid view whose minimum was set to 5 columns and whose maximum was then set to
  3.\<close>

definition min_above_max_view :: "real GtkGridView" where
  "min_above_max_view =
     (gtk_grid_view_init exact_ops)
       \<lparr>min_columns := 5, max_columns := 3, anchor_n_before := 3, anchor_n_after := 93,
        resize_queued := True\<rparr>"

section \<open>Summaries\<close>

lemma length_cells: "length (cells t) = n_nodes t"
  by (induction t) auto

lemma summaries_ok_inv: "summaries_ok t \<Longrightarrow> augment_inv t \<and> \<not> is_dirty t"
  by (induction t) auto

lemma clean_inv_summaries_ok: "augment_inv t \<Longrightarrow> \<not> is_dirty t \<Longrightarrow> summaries_ok t"
  by (induction t) auto

lemma get_augment_clean:
  "augment_inv t \<Longrightarrow>
     summaries_ok (fst (gtk_rb_tree_get_augment t)) \<and>
     snd (gtk_rb_tree_get_augment t) = cached_augment (fst (gtk_rb_tree_get_augment t)) \<and>
     cells (fst (gtk_rb_tree_get_augment t)) = cells t"
proof (induction t)
  case Leaf
  show ?case by simp
next
  case (Node l c a d r)
  show ?case
  proof (cases d)
    case True
    with Node show ?thesis by (simp add: split_beta Let_def)
  next
    case False
    with Node.prems have "summaries_ok (Node l c a d r)"
      by (intro clean_inv_summaries_ok) auto
    with False show ?thesis by simp
  qed
qed

lemma summaries_ok_size:
  "summaries_ok t \<Longrightarrow>
     (case cached_augment t of None \<Rightarrow> 0 | Some a \<Rightarrow> aug_size a) =
       sum_list (map cell_size (cells t))"
proof (induction t)
  case Leaf
  show ?case by simp
next
  case (Node l c a d r)
  then show ?case
    by (cases l; cases r) (auto simp: cell_augment_def Let_def)
qed

lemma summaries_ok_n_items:
  "summaries_ok t \<Longrightarrow>
     (case cached_augment t of None \<Rightarrow> 0 | Some a \<Rightarrow> aug_n_items a) =
       sum_list (map n_items (cells t))"
proof (induction t)
  case Leaf
  show ?case by simp
next
  case (Node l c a d r)
  then show ?case
    by (cases l; cases r)
       (auto simp: cell_augment_def gtk_list_item_manager_augment_node_def Let_def)
qed

lemma cached_augment_None: "cached_augment t = None \<longleftrightarrow> t = Leaf"
  by (cases t) auto

lemma cell_set_size_inv:
  "augment_inv t \<Longrightarrow>
     augment_inv (fst (cell_set_size k s t)) \<and>
     ((fst (cell_set_size k s t) = t \<and> \<not> snd (cell_set_size k s t)) \<or>
      (is_dirty (fst (cell_set_size k s t)) \<and>
       snd (cell_set_size k s t) = (\<not> is_dirty t)))"
proof (induction t arbitrary: k)
  case Leaf
  show ?case by simp
next
  case (Node l c a d r)
  from Node.prems have il: "augment_inv l" and ir: "augment_inv r" by auto
  note hl = Node.IH(1)[OF il, of k]
  note hr = Node.IH(2)[OF ir, of "k - n_nodes l - 1"]
  consider (left) "k < n_nodes l" | (here) "k = n_nodes l" | (right) "n_nodes l < k"
    by linarith
  then show ?case
  proof cases
    case left
    obtain l' up where e: "cell_set_size k s l = (l', up)" by (cases "cell_set_size k s l")
    with hl Node.prems left show ?thesis by (cases d) auto
  next
    case here
    with Node.prems show ?thesis by auto
  next
    case right
    obtain r' up where e: "cell_set_size (k - n_nodes l - 1) s r = (r', up)"
      by (cases "cell_set_size (k - n_nodes l - 1) s r")
    with hr Node.prems right show ?thesis by (cases d) auto
  qed
qed

lemma cell_set_size_cells:
  "map cell_size (cells (fst (cell_set_size k s t))) = (map cell_size (cells t))[k := s] \<and>
   map n_items (cells (fst (cell_set_size k s t))) = map n_items (cells t) \<and>
   map widget (cells (fst (cell_set_size k s t))) = map widget (cells t) \<and>
   n_nodes (fst (cell_set_size k s t)) = n_nodes t"
proof (induction t arbitrary: k)
  case Leaf
  show ?case by simp
next
  case (Node l c a d r)
  consider (left) "k < n_nodes l" | (here) "k = n_nodes l" | (right) "n_nodes l < k"
    by linarith
  then show ?case
  proof cases
    case left
    obtain l' up where e: "cell_set_size k s l = (l', up)" by (cases "cell_set_size k s l")
    with Node.IH(1)[of k] left show ?thesis
      by (auto simp: list_update_append length_cells)
  next
    case here
    then show ?thesis
      by (auto simp: list_update_append length_cells list_update_same_conv)
  next
    case right
    obtain r' up where e: "cell_set_size (k - n_nodes l - 1) s r = (r', up)"
      by (cases "cell_set_size (k - n_nodes l - 1) s r")
    from right obtain j where j: "k - n_nodes l = Suc j" "k - n_nodes l - 1 = j"
      by (cases "k - n_nodes l") auto
    with Node.IH(2)[of j] right e show ?thesis
      by (auto simp: list_update_append length_cells)
  qed
qed

lemma apply_op_inv: "augment_inv t \<Longrightarrow> augment_inv (apply_op t x)"
proof (cases x)
  case (SetSize k s)
  assume "augment_inv t"
  with SetSize show ?thesis using cell_set_size_inv[of t k s] by simp
next
  case ReadSummary
  assume "augment_inv t"
  with ReadSummary show ?thesis
    using get_augment_clean[of t] summaries_ok_inv by simp
qed

lemma foldl_apply_op_inv: "augment_inv t \<Longrightarrow> augment_inv (foldl apply_op t ops)"
  by (induction ops arbitrary: t) (auto simp: apply_op_inv)

lemma root_summary_size:
  assumes "augment_inv t"
  shows "(case root_summary t of None \<Rightarrow> 0 | Some a \<Rightarrow> aug_size a) =
           sum_list (map cell_size (cells t))"
  using get_augment_clean[OF assms]
    summaries_ok_size[of "fst (gtk_rb_tree_get_augment t)"]
  by (simp add: root_summary_def)

lemma root_summary_n_items:
  assumes "augment_inv t"
  shows "(case root_summary t of None \<Rightarrow> 0 | Some a \<Rightarrow> aug_n_items a) =
           sum_list (map n_items (cells t))"
  using get_augment_clean[OF assms]
    summaries_ok_n_items[of "fst (gtk_rb_tree_get_augment t)"]
  by (simp add: root_summary_def)

lemma new_node_inv: "augment_inv l \<Longrightarrow> augment_inv r \<Longrightarrow> augment_inv (new_node l c r)"
  by (simp add: new_node_def)

lemma cell_augment_size:
  "aug_size (cell_augment c left right) =
     cell_size c + (case left of None \<Rightarrow> 0 | Some la \<Rightarrow> aug_size la)
                 + (case right of None \<Rightarrow> 0 | Some ra \<Rightarrow> aug_size ra)"
  by (simp add: cell_augment_def Let_def split: option.splits)

text \<open>
  C1.  The summary that \<^verbatim>\<open>cell_augment\<close> computes for a node is the node's own size
  plus the summaries of the children that exist.  From a tree in the state the red-black
  tree keeps (\<open>augment_inv\<close>), after any sequence of \<^verbatim>\<open>cell_set_size\<close> calls and
  summary reads, in any order: re-augmentation leaves every node with the summary of its
  own fields and its children's, the root's summary size is the sum of the sizes of all
  runs (in \<^verbatim>\<open>guint\<close> arithmetic), and the sizes are the ones the mutations wrote.
\<close>

theorem root_summary_tracks_sizes:
  assumes "augment_inv t"
  shows "aug_size (cell_augment c left right) =
           cell_size c + (case left of None \<Rightarrow> 0 | Some la \<Rightarrow> aug_size la)
                       + (case right of None \<Rightarrow> 0 | Some ra \<Rightarrow> aug_size ra) \<and>
         summaries_ok (apply_op (foldl apply_op t ops) ReadSummary) \<and>
         (case root_summary (foldl apply_op t ops) of None \<Rightarrow> 0 | Some a \<Rightarrow> aug_size a) =
           sum_list (map cell_size (cells (foldl apply_op t ops))) \<and>
         map cell_size (cells (foldl apply_op t ops)) =
           foldl (\<lambda>xs x. case x of SetSize k s \<Rightarrow> xs[k := s] | ReadSummary \<Rightarrow> xs)
             (map cell_size (cells t)) ops"
proof -
  have inv: "augment_inv (foldl apply_op t ops)"
    using assms by (rule foldl_apply_op_inv)
  have sizes: "map cell_size (cells (foldl apply_op t ops)) =
      foldl (\<lambda>xs x. case x of SetSize k s \<Rightarrow> xs[k := s] | ReadSummary \<Rightarrow> xs)
        (map cell_size (cells t)) ops"
  proof (induction ops arbitrary: t)
    case Nil
    show ?case by simp
  next
    case (Cons x xs)
    have "map cell_size (cells (apply_op t x)) =
        (case x of SetSize k s \<Rightarrow> (map cell_size (cells t))[k := s]
         | ReadSummary \<Rightarrow> map cell_size (cells t))"
    proof (cases x)
      case (SetSize k s)
      then show ?thesis using cell_set_size_cells[of k s t] by simp
    next
      case ReadSummary
      have "cells (fst (gtk_rb_tree_get_augment u)) = cells u" for u
        by (induction u) (auto simp: split_beta Let_def)
      with ReadSummary show ?thesis by simp
    qed
    with Cons.IH[of "apply_op t x"] show ?case by simp
  qed
  show ?thesis
    using get_augment_clean[OF inv] root_summary_size[OF inv] sizes
    by (simp add: cell_augment_size)
qed

theorem root_summary_tracks_sizes_witness:
  "augment_inv (new_node (new_node Leaf \<lparr>n_items = 1, widget = Some 0, cell_size = 0\<rparr> Leaf)
                  \<lparr>n_items = 1, widget = Some 1, cell_size = 0\<rparr>
                  (new_node Leaf \<lparr>n_items = 5, widget = None, cell_size = 0\<rparr> Leaf)) \<and>
   root_summary (foldl apply_op
      (new_node (new_node Leaf \<lparr>n_items = 1, widget = Some 0, cell_size = 0\<rparr> Leaf)
                  \<lparr>n_items = 1, widget = Some 1, cell_size = 0\<rparr>
                  (new_node Leaf \<lparr>n_items = 5, widget = None, cell_size = 0\<rparr> Leaf))
      [SetSize 0 10, ReadSummary, SetSize 2 7, SetSize 0 12]) =
     Some \<lparr>aug_n_items = 7, aug_size = 19\<rparr> \<and>
   sum_list (map cell_size (cells (foldl apply_op
      (new_node (new_node Leaf \<lparr>n_items = 1, widget = Some 0, cell_size = 0\<rparr> Leaf)
                  \<lparr>n_items = 1, widget = Some 1, cell_size = 0\<rparr>
                  (new_node Leaf \<lparr>n_items = 5, widget = None, cell_size = 0\<rparr> Leaf))
      [SetSize 0 10, ReadSummary, SetSize 2 7, SetSize 0 12]))) = 19"
proof -
  let ?t = "new_node (new_node Leaf \<lparr>n_items = 1, widget = Some 0, cell_size = 0\<rparr> Leaf)
                  \<lparr>n_items = 1, widget = Some 1, cell_size = 0\<rparr>
                  (new_node Leaf \<lparr>n_items = 5, widget = None, cell_size = 0\<rparr> Leaf)"
  have h: "augment_inv ?t" by (simp add: new_node_def)
  have r: "root_summary (foldl apply_op ?t [SetSize 0 10, ReadSummary, SetSize 2 7, SetSize 0 12])
      = Some \<lparr>aug_n_items = 7, aug_size = 19\<rparr>"
    by (simp add: new_node_def root_summary_def cell_augment_def
        gtk_list_item_manager_augment_node_def Let_def)
  from root_summary_tracks_sizes[OF h, of undefined None None
      "[SetSize 0 10, ReadSummary, SetSize 2 7, SetSize 0 12]"] r h
  show ?thesis by (simp add: new_node_def)
qed

section \<open>Evaluating the functions at concrete inputs\<close>

lemma le_one_guint: "(x :: guint) \<le> 1 \<longleftrightarrow> x < 2"
  by (simp add: word_le_nat_alt word_less_nat_alt) arith

lemmas query_defs =
  gtk_grid_view_get_cell_at_y_def gtk_grid_view_get_size_at_position_def
  gtk_list_item_manager_get_item_augment_def cell_augment_def
  gtk_list_item_manager_augment_node_def checked_mod_def checked_div_def
  checked_int_div_def int_div_def MIN_uint_def new_node_def gtk_grid_view_init_def Let_def

lemmas layout_defs =
  le_one_guint gtk_grid_view_size_allocate_def size_allocate_columns_def
  size_allocate_known_rows_def size_allocate_unknown_rows_def known_rows_cell_def
  unknown_rows_cell_def grow_cell_def column_width_to_int_def
  gtk_grid_view_measure_column_size_def
  gtk_grid_view_compute_n_columns_def gtk_grid_view_get_unknown_row_size_def
  g_array_sort_def compare_ints_def
  gtk_grid_view_update_adjustment_def gtk_grid_view_update_adjustment_with_values_def
  gtk_adjustment_configure_def g_signal_handlers_block_by_func_def
  g_signal_handlers_unblock_by_func_def gtk_grid_view_adjustment_is_flipped_def
  gtk_adjustment_new_zero_def GTK_INVALID_LIST_POSITION_def DEFAULT_MAX_COLUMNS_def
  checked_mod_def checked_div_def MAX_int_def MIN_int_def CLAMP_def
  new_node_def gtk_grid_view_init_def exact_ops_def Let_def word_sless_alt word_sle_eq
  upt_rec

text \<open>The layout pass itself produces \<open>mid_row_run_view\<close>: a 30 wide grid of children
  that are 10 wide and 10 high gets three columns, and the two runs get the sizes 10 and
  10.\<close>

lemma mid_row_run_view_is_laid_out:
  "\<exists>s. gtk_grid_view_size_allocate exact_ops measure_10 mid_row_run_before 30 100 = Inr s \<and>
       cells (item_manager s) = cells (item_manager mid_row_run_view) \<and>
       n_columns s = n_columns mid_row_run_view \<and>
       unknown_row_height s = unknown_row_height mid_row_run_view \<and>
       column_width s = column_width mid_row_run_view"
  by (simp add: mid_row_run_before_def mid_row_run_view_def measure_10_def layout_defs)

section \<open>Geometry queries: rows\<close>

lemma snapped_position_mod:
  fixes p n :: guint
  assumes "n \<noteq> 0"
  shows "(p - p mod n) mod n = 0"
proof -
  have le: "p mod n \<le> p" by (simp add: word_le_nat_alt unat_mod)
  have "unat (p - p mod n) = unat p - unat p mod unat n"
    using le by (simp add: unat_sub unat_mod)
  also have "\<dots> = unat p div unat n * unat n"
    by (simp add: minus_mod_eq_div_mult)
  finally have "unat ((p - p mod n) mod n) = 0"
    by (simp add: unat_mod)
  then show ?thesis by (simp add: unat_eq_zero)
qed

text \<open>\<^verbatim>\<open>gtk_grid_view_get_size_at_position\<close> answers for the first column of the row of
  the position it is asked about.\<close>

lemma get_size_at_position_snaps:
  "gtk_grid_view_get_size_at_position self p =
     gtk_grid_view_get_size_at_position self (p - p mod n_columns self)"
  by (simp add: gtk_grid_view_get_size_at_position_def checked_mod_def snapped_position_mod)

text \<open>
  C2.  In \<open>mid_row_run_view\<close> (three columns, rows 10 high, a run of items 1 to 5 that
  starts in the middle of row 0) position 3 is in row 1.
  \<^verbatim>\<open>gtk_grid_view_get_size_at_position\<close> puts it at offset 10;
  \<^verbatim>\<open>gtk_grid_view_get_cell_at_y\<close> at offset 10 returns the run of items 1 to 5 and
  reports position 1, which is in row 0, not in row 1.
\<close>

theorem round_trip_leaves_the_row:
  "gtk_grid_view_get_size_at_position mid_row_run_view 3 =
     Inr \<lparr>cell_exists = True, at_offset = 10, at_size = 10\<rparr> \<and>
   gtk_grid_view_get_cell_at_y mid_row_run_view 10 =
     Inr \<lparr>found_cell = Some \<lparr>n_items = 5, widget = None, cell_size = 10\<rparr>,
          out_position = 1, out_offset = 0, out_size = 10\<rparr> \<and>
   (1 :: guint) div n_columns mid_row_run_view \<noteq> 3 div n_columns mid_row_run_view"
  by (simp add: mid_row_run_view_def query_defs)

text \<open>
  C7.  In \<open>mid_row_run_view\<close> the offset 15 lies in row 1, whose first column is
  position 3.  \<^verbatim>\<open>gtk_grid_view_get_cell_at_y\<close> reports position 1 for it: not a multiple
  of the three columns, and not in the row of the offset.
\<close>

theorem reported_position_is_no_row_start:
  "gtk_grid_view_get_cell_at_y mid_row_run_view 15 =
     Inr \<lparr>found_cell = Some \<lparr>n_items = 5, widget = None, cell_size = 10\<rparr>,
          out_position = 1, out_offset = 5, out_size = 10\<rparr> \<and>
   (1 :: guint) mod n_columns mid_row_run_view \<noteq> 0"
  by (simp add: mid_row_run_view_def query_defs)

section \<open>Column solver\<close>

lemma sint_MAX_int_1: "sint (MAX_int 1 m) = max 1 (sint m)"
  by (simp add: MAX_int_def word_sless_alt)

lemma uint_MAX_int_1: "uint (MAX_int 1 m) = max 1 (sint m)"
proof -
  have "0 \<le> sint (MAX_int 1 m)" by (simp add: sint_MAX_int_1)
  moreover have "sint (MAX_int 1 m) < 2 ^ 32"
    using sint_lt[of "MAX_int 1 m"] by simp
  ultimately have "take_bit 32 (sint (MAX_int 1 m)) = sint (MAX_int 1 m)"
    by (intro take_bit_int_eq_self)
  then have "uint (MAX_int 1 m) = sint (MAX_int 1 m)"
    by (simp add: uint_sint)
  then show ?thesis by (simp add: sint_MAX_int_1)
qed

text \<open>The divisor of the column count is never zero.\<close>

lemma MAX_int_1_nonzero: "MAX_int 1 m \<noteq> 0"
proof
  assume "MAX_int 1 m = 0"
  then have "uint (MAX_int 1 m) = 0" by simp
  then show False by (simp add: uint_MAX_int_1)
qed

lemma uint_CLAMP: "uint (CLAMP x lo hi) = spec_clamp (uint x) (uint lo) (uint hi)"
  by (simp add: CLAMP_def spec_clamp_def word_less_def)

lemma CLAMP_nonzero: "lo \<noteq> 0 \<Longrightarrow> hi \<noteq> 0 \<Longrightarrow> CLAMP x lo hi \<noteq> 0"
  by (auto simp: CLAMP_def word_less_nat_alt unat_eq_zero)

lemma CLAMP_range: "lo \<le> hi \<Longrightarrow> lo \<le> CLAMP x lo hi \<and> CLAMP x lo hi \<le> hi"
  by (auto simp: CLAMP_def)

lemma spec_clamp_max_min: "lo \<le> hi \<Longrightarrow> spec_clamp x lo hi = max lo (min x hi)"
  by (auto simp: spec_clamp_def)

lemma compute_n_columns_spec:
  "\<exists>n. gtk_grid_view_compute_n_columns self for_size mn nt = Inr n \<and>
       uint n = spec_n_columns (uint for_size) (sint mn) (sint nt)
                  (scroll_policy self (OPPOSITE_ORIENTATION (orientation self)))
                  (uint (min_columns self)) (uint (max_columns self))"
  by (simp add: gtk_grid_view_compute_n_columns_def checked_div_def MAX_int_1_nonzero
      spec_n_columns_def uint_CLAMP uint_div uint_MAX_int_1)

lemma size_allocate_columns_spec:
  assumes "min_columns self \<noteq> 0" "max_columns self \<noteq> 0"
  shows "\<exists>self'. size_allocate_columns m self width height = Inr self' \<and>
       uint (n_columns self') =
         spec_n_columns
           (uint (if orientation self = GTK_ORIENTATION_VERTICAL then width else height))
           (sint (fst (gtk_grid_view_measure_column_size m self)))
           (sint (snd (gtk_grid_view_measure_column_size m self)))
           (scroll_policy self (OPPOSITE_ORIENTATION (orientation self)))
           (uint (min_columns self)) (uint (max_columns self)) \<and>
       column_width self' =
         spec_column_width
           (uint (if orientation self = GTK_ORIENTATION_VERTICAL then width else height))
           (uint (n_columns self'))
           (sint (fst (gtk_grid_view_measure_column_size m self)))"
proof -
  obtain col_min col_nat
    where mc: "gtk_grid_view_measure_column_size m self = (col_min, col_nat)"
    by (cases "gtk_grid_view_measure_column_size m self")
  let ?avail = "if orientation self = GTK_ORIENTATION_VERTICAL then width else height"
  from compute_n_columns_spec[of self ?avail col_min col_nat]
  obtain n where n: "gtk_grid_view_compute_n_columns self ?avail col_min col_nat = Inr n"
    and sn: "uint n = spec_n_columns (uint ?avail) (sint col_min) (sint col_nat)
                  (scroll_policy self (OPPOSITE_ORIENTATION (orientation self)))
                  (uint (min_columns self)) (uint (max_columns self))"
    by blast
  from n have "n = CLAMP
      (if scroll_policy self (OPPOSITE_ORIENTATION (orientation self)) = GTK_SCROLL_MINIMUM
       then ?avail div (MAX_int 1 col_min) else ?avail div (MAX_int 1 col_nat))
      (min_columns self) (max_columns self)"
    by (auto simp: gtk_grid_view_compute_n_columns_def checked_div_def MAX_int_1_nonzero
        split: if_splits)
  with assms have n0: "n \<noteq> 0" by (simp add: CLAMP_nonzero)
  show ?thesis
    using n sn n0 mc
    by (auto simp: size_allocate_columns_def Let_def checked_div_def spec_column_width_def
        uint_div max_def)
qed

text \<open>
  C3.  For every grid view and all arguments \<^verbatim>\<open>gtk_grid_view_compute_n_columns\<close> returns
  a column count, and read as an integer it is the spec's
  \<open>clamp(available_size / max(1, measured), min_columns, max_columns)\<close> with the measured
  minimum under the policy \<^verbatim>\<open>GTK_SCROLL_MINIMUM\<close> and the measured natural size
  otherwise.  With column limits that are at least 1 (the setters refuse 0), step 1 of the
  layout pass stores that count and \<open>column_width = max(available_size / n_columns,
  measured_min)\<close>.  For available 100, minimum 20, natural 34, limits 1 and 7 and the
  natural policy the count is 2 and the width is 50.
\<close>

theorem column_solver_contract:
  "(\<exists>n. gtk_grid_view_compute_n_columns self for_size mn nt = Inr n \<and>
        uint n = spec_n_columns (uint for_size) (sint mn) (sint nt)
                   (scroll_policy self (OPPOSITE_ORIENTATION (orientation self)))
                   (uint (min_columns self)) (uint (max_columns self))) \<and>
   (min_columns self \<noteq> 0 \<and> max_columns self \<noteq> 0 \<longrightarrow>
      (\<exists>self'. size_allocate_columns m self width height = Inr self' \<and>
         uint (n_columns self') =
           spec_n_columns
             (uint (if orientation self = GTK_ORIENTATION_VERTICAL then width else height))
             (sint (fst (gtk_grid_view_measure_column_size m self)))
             (sint (snd (gtk_grid_view_measure_column_size m self)))
             (scroll_policy self (OPPOSITE_ORIENTATION (orientation self)))
             (uint (min_columns self)) (uint (max_columns self)) \<and>
         column_width self' =
           spec_column_width
             (uint (if orientation self = GTK_ORIENTATION_VERTICAL then width else height))
             (uint (n_columns self'))
             (sint (fst (gtk_grid_view_measure_column_size m self))))) \<and>
   gtk_grid_view_compute_n_columns one_child_view 100 20 34 = Inr 2 \<and>
   (\<exists>self'. size_allocate_columns measure_20_34 one_child_view 100 0 = Inr self' \<and>
      n_columns self' = 2 \<and> column_width self' = 50)"
proof (intro conjI impI)
  show "\<exists>n. gtk_grid_view_compute_n_columns self for_size mn nt = Inr n \<and>
        uint n = spec_n_columns (uint for_size) (sint mn) (sint nt)
                   (scroll_policy self (OPPOSITE_ORIENTATION (orientation self)))
                   (uint (min_columns self)) (uint (max_columns self))"
    by (rule compute_n_columns_spec)
next
  assume "min_columns self \<noteq> 0 \<and> max_columns self \<noteq> 0"
  then show "\<exists>self'. size_allocate_columns m self width height = Inr self' \<and>
         uint (n_columns self') =
           spec_n_columns
             (uint (if orientation self = GTK_ORIENTATION_VERTICAL then width else height))
             (sint (fst (gtk_grid_view_measure_column_size m self)))
             (sint (snd (gtk_grid_view_measure_column_size m self)))
             (scroll_policy self (OPPOSITE_ORIENTATION (orientation self)))
             (uint (min_columns self)) (uint (max_columns self)) \<and>
         column_width self' =
           spec_column_width
             (uint (if orientation self = GTK_ORIENTATION_VERTICAL then width else height))
             (uint (n_columns self'))
             (sint (fst (gtk_grid_view_measure_column_size m self)))"
    using size_allocate_columns_spec[of self m width height] by simp
next
  show "gtk_grid_view_compute_n_columns one_child_view 100 20 34 = Inr 2"
    by (simp add: one_child_view_def layout_defs)
next
  show "\<exists>self'. size_allocate_columns measure_20_34 one_child_view 100 0 = Inr self' \<and>
      n_columns self' = 2 \<and> column_width self' = 50"
    by (simp add: one_child_view_def measure_20_34_def layout_defs)
qed

theorem column_solver_contract_witness:
  "min_columns one_child_view \<noteq> 0 \<and> max_columns one_child_view \<noteq> 0 \<and>
   (\<exists>self'. size_allocate_columns measure_20_34 one_child_view 100 0 = Inr self' \<and>
      uint (n_columns self') = 2 \<and> column_width self' = 50)"
proof -
  have h: "min_columns one_child_view \<noteq> 0 \<and> max_columns one_child_view \<noteq> 0"
    by (simp add: one_child_view_def gtk_grid_view_init_def DEFAULT_MAX_COLUMNS_def)
  have m: "gtk_grid_view_measure_column_size measure_20_34 one_child_view = (20, 34)"
    by (simp add: one_child_view_def measure_20_34_def layout_defs)
  have s: "spec_n_columns 100 20 34
      (scroll_policy one_child_view (OPPOSITE_ORIENTATION (orientation one_child_view)))
      (uint (min_columns one_child_view)) (uint (max_columns one_child_view)) = 2"
    by (simp add: one_child_view_def gtk_grid_view_init_def DEFAULT_MAX_COLUMNS_def
        spec_n_columns_def spec_clamp_def)
  have o: "orientation one_child_view = GTK_ORIENTATION_VERTICAL"
    by (simp add: one_child_view_def gtk_grid_view_init_def)
  from column_solver_contract[of one_child_view 100 20 34 measure_20_34 100 0] h
  obtain self' where
    "size_allocate_columns measure_20_34 one_child_view 100 0 = Inr self'"
    "uint (n_columns self') = 2"
    "column_width self' = spec_column_width 100 (uint (n_columns self')) 20"
    by (auto simp: m s o)
  then show ?thesis using h by (auto simp: spec_column_width_def)
qed

text \<open>\<open>min_above_max_view\<close> is the grid view after
  \<^verbatim>\<open>gtk_grid_view_set_min_columns (5)\<close> and \<^verbatim>\<open>gtk_grid_view_set_max_columns (3)\<close>; both
  setters accept their argument.\<close>

lemma min_above_max_view_is_set:
  "gtk_grid_view_set_max_columns exact_ops
     (gtk_grid_view_set_min_columns (gtk_grid_view_init exact_ops) 5) 3 =
   Inr min_above_max_view"
  by (simp add: min_above_max_view_def gtk_grid_view_set_max_columns_def
      gtk_grid_view_set_min_columns_def gtk_grid_view_set_anchor_def
      gtk_list_item_tracker_set_position_def anchor_items_before_def
      anchor_items_after_def GTK_GRID_VIEW_MIN_VISIBLE_ROWS_def convert_def real_trunc_def
      gtk_grid_view_init_def DEFAULT_MAX_COLUMNS_def exact_ops_def Let_def)

text \<open>
  C10, as stated: the count never rises above \<open>max_columns\<close>.  The documentation of
  \<open>max-columns\<close> says that \<open>min-columns\<close> is used when the maximum is smaller than the
  minimum.  In \<open>min_above_max_view\<close> (minimum 5, maximum 3) a 20 wide grid of children 10
  wide has the quotient 2, and the count is the minimum, 5, as documented: above the
  maximum of 3.
\<close>

theorem columns_above_maximum:
  "gtk_grid_view_compute_n_columns min_above_max_view 20 10 10 = Inr 5 \<and>
   min_columns min_above_max_view = 5 \<and>
   max_columns min_above_max_view = 3 \<and>
   \<not> 5 \<le> max_columns min_above_max_view"
  by (simp add: min_above_max_view_def layout_defs)

text \<open>In the same grid view a quotient above the maximum gives the maximum, 3, where the
  documentation promises the minimum; the amended statement below says nothing about
  limits in this order.\<close>

lemma quotient_above_maximum_gives_maximum:
  "gtk_grid_view_compute_n_columns min_above_max_view 100 10 10 = Inr 3"
  by (simp add: min_above_max_view_def layout_defs)

text \<open>
  C10, amended.  \<^verbatim>\<open>gtk_grid_view_compute_n_columns\<close> returns a column count for every
  grid view, every \<open>for_size\<close> and every measured minimum and natural size: the divisor
  \<^verbatim>\<open>MAX (1, measured)\<close> is never zero.  When \<open>min_columns \<le> max_columns\<close> the count lies
  between the two.
\<close>

theorem compute_n_columns_total_and_clamped:
  "MAX_int 1 mn \<noteq> 0 \<and> MAX_int 1 nt \<noteq> 0 \<and>
   (\<exists>n. gtk_grid_view_compute_n_columns self for_size mn nt = Inr n \<and>
        (min_columns self \<le> max_columns self \<longrightarrow>
           min_columns self \<le> n \<and> n \<le> max_columns self))"
  by (simp add: gtk_grid_view_compute_n_columns_def checked_div_def MAX_int_1_nonzero
      CLAMP_range)

theorem compute_n_columns_total_and_clamped_witness:
  "min_columns (gtk_grid_view_init exact_ops) \<le> max_columns (gtk_grid_view_init exact_ops) \<and>
   gtk_grid_view_compute_n_columns (gtk_grid_view_init exact_ops) 0 0 0 = Inr 1 \<and>
   min_columns (gtk_grid_view_init exact_ops) \<le> 1 \<and>
   1 \<le> max_columns (gtk_grid_view_init exact_ops)"
  using compute_n_columns_total_and_clamped[of 0 0 "gtk_grid_view_init exact_ops" 0]
  by (simp add: layout_defs)

section \<open>Row-height estimator\<close>

lemma compare_ints_sign:
  assumes "difference_fits a b"
  shows "compare_ints a b \<le>s 0 \<longleftrightarrow> sint a \<le> sint b"
proof -
  have "sint (a - b) = signed_take_bit 31 (sint a - sint b)"
    by (simp add: sint_word_ariths)
  also have "\<dots> = sint a - sint b"
    using assms by (intro signed_take_bit_int_eq_self) (auto simp: difference_fits_def)
  finally show ?thesis by (simp add: compare_ints_def word_sle_eq)
qed

lemma insert_sorted_insort:
  "\<forall>y\<in>set ys. difference_fits x y \<Longrightarrow>
     insert_sorted compare_ints x ys = insort_key sint x ys"
  by (induction ys) (auto simp: compare_ints_sign)

lemma g_array_sort_sort_key:
  "\<forall>a\<in>set xs. \<forall>b\<in>set xs. difference_fits a b \<Longrightarrow>
     g_array_sort compare_ints xs = sort_key sint xs"
proof (induction xs)
  case Nil
  show ?case by (simp add: g_array_sort_def)
next
  case (Cons x xs)
  then have "g_array_sort compare_ints xs = sort_key sint xs" by simp
  moreover have "\<forall>y\<in>set (sort_key sint xs). difference_fits x y"
    using Cons.prems by simp
  ultimately show ?case
    using insert_sorted_insort[of "sort_key sint xs" x]
    by (simp add: g_array_sort_def)
qed

lemma nonneg_difference_fits:
  assumes "0 \<le>s a" "0 \<le>s b"
  shows "difference_fits a b"
proof -
  from assms have "0 \<le> sint a" "0 \<le> sint b" by (simp_all add: word_sle_eq)
  moreover have "sint a < 2 ^ 31" "sint b < 2 ^ 31"
    using sint_lt[of a] sint_lt[of b] by simp_all
  ultimately show ?thesis by (simp add: difference_fits_def)
qed

text \<open>
  C4.  For a non-empty list of heights \<^verbatim>\<open>gtk_grid_view_get_unknown_row_size\<close> returns the
  element at index \<open>len / 2\<close> of the heights sorted as \<^verbatim>\<open>int\<close>s, whenever the subtraction
  in \<^verbatim>\<open>compare_ints\<close> does not overflow for any two of them; heights that are not
  negative, as measured sizes are, never overflow it.  It returns 4 for [4, 4, 4, 10] and
  5 for [5].
\<close>

theorem unknown_row_size_is_median:
  "(heights \<noteq> [] \<and> (\<forall>a\<in>set heights. \<forall>b\<in>set heights. difference_fits a b) \<longrightarrow>
      gtk_grid_view_get_unknown_row_size heights =
        sort_key sint heights ! (length heights div 2)) \<and>
   (heights \<noteq> [] \<and> (\<forall>h\<in>set heights. 0 \<le>s h) \<longrightarrow>
      gtk_grid_view_get_unknown_row_size heights =
        sort_key sint heights ! (length heights div 2)) \<and>
   gtk_grid_view_get_unknown_row_size [4, 4, 4, 10] = 4 \<and>
   gtk_grid_view_get_unknown_row_size [5] = 5"
proof (intro conjI impI)
  assume "heights \<noteq> [] \<and> (\<forall>a\<in>set heights. \<forall>b\<in>set heights. difference_fits a b)"
  then show "gtk_grid_view_get_unknown_row_size heights =
      sort_key sint heights ! (length heights div 2)"
    by (simp add: gtk_grid_view_get_unknown_row_size_def g_array_sort_sort_key)
next
  assume h: "heights \<noteq> [] \<and> (\<forall>h\<in>set heights. 0 \<le>s h)"
  then have "\<forall>a\<in>set heights. \<forall>b\<in>set heights. difference_fits a b"
    by (simp add: nonneg_difference_fits)
  with h show "gtk_grid_view_get_unknown_row_size heights =
      sort_key sint heights ! (length heights div 2)"
    by (simp add: gtk_grid_view_get_unknown_row_size_def g_array_sort_sort_key)
next
  show "gtk_grid_view_get_unknown_row_size [4, 4, 4, 10] = 4"
    by (simp add: gtk_grid_view_get_unknown_row_size_def g_array_sort_def compare_ints_def
        word_sle_eq)
next
  show "gtk_grid_view_get_unknown_row_size [5] = 5"
    by (simp add: gtk_grid_view_get_unknown_row_size_def g_array_sort_def)
qed

theorem unknown_row_size_is_median_witness:
  "[10, 4, 7, 4] \<noteq> ([] :: gint list) \<and> 0 \<le>s (10 :: gint) \<and> 0 \<le>s (4 :: gint) \<and>
   0 \<le>s (7 :: gint) \<and>
   sort_key sint [10, 4, 7, 4 :: gint] = [4, 4, 7, 10] \<and>
   gtk_grid_view_get_unknown_row_size [10, 4, 7, 4] = 7"
  using unknown_row_size_is_median[of "[10, 4, 7, 4]"]
  by (simp add: word_sle_eq)

text \<open>
  C5.  \<open>nothing_realized_view\<close> holds five items and no widget; its stored
  \<open>unknown_row_height\<close> is 17.  A layout pass collects no height, calls
  \<^verbatim>\<open>gtk_grid_view_get_unknown_row_size\<close> on the empty array all the same, and stores the 0
  that the failed \<^verbatim>\<open>g_return_val_if_fail (heights->len > 0, 0)\<close> returns.
\<close>

theorem unknown_row_height_is_overwritten:
  "unknown_row_height nothing_realized_view = 17 \<and>
   list_all (\<lambda>c. widget c = None) (cells (item_manager nothing_realized_view)) \<and>
   (\<exists>s. gtk_grid_view_size_allocate exact_ops measure_10 nothing_realized_view 30 100 = Inr s \<and>
        unknown_row_height s = 0)"
  by (simp add: nothing_realized_view_def measure_10_def layout_defs)

section \<open>Geometry queries: out of range\<close>

lemma word_sum_of_nat:
  "sum_list (map f cs) = (of_nat (sum_list (map (\<lambda>c. unat (f c)) cs)) :: guint)"
  by (induction cs) auto

lemma get_item_augment_None:
  "gtk_list_item_manager_get_item_augment t = None \<longleftrightarrow> t = Leaf"
  by (cases t) (auto simp: gtk_list_item_manager_get_item_augment_def split_beta Let_def)

lemma get_item_augment_Some:
  assumes "augment_inv t" "gtk_list_item_manager_get_item_augment t = Some a"
  shows "aug_size a = of_nat (content_height t) \<and> aug_n_items a = of_nat (item_count t)"
  using root_summary_size[OF assms(1)] root_summary_n_items[OF assms(1)] assms(2)
  by (simp add: root_summary_def gtk_list_item_manager_get_item_augment_def
      content_height_def item_count_def word_sum_of_nat[symmetric])

lemma unat_of_nat_le:
  fixes y :: guint
  assumes "n \<le> unat y"
  shows "unat (of_nat n :: guint) = n"
proof -
  have "unat y < 2 ^ 32" using unsigned_less[of y] by simp
  with assms have "n < 2 ^ 32" by linarith
  then show ?thesis by (simp add: unat_of_nat)
qed

lemma unat_minus_le:
  fixes y s :: guint
  assumes "unat s \<le> unat y"
  shows "unat (y - s) = unat y - unat s" "\<not> y < s"
  using assms by (simp_all add: unat_sub word_le_nat_alt word_less_nat_alt)

lemma content_height_Node:
  "content_height (Node l c a d r) =
     content_height l + unat (cell_size c) + content_height r"
  by (simp add: content_height_def)

lemma item_count_Node:
  "item_count (Node l c a d r) = item_count l + unat (n_items c) + item_count r"
  by (simp add: item_count_def)

text \<open>An offset at or beyond the height of all rows runs the descent off the tree.\<close>

lemma cell_at_y_loop_beyond:
  "augment_inv t \<Longrightarrow> content_height t \<le> unat y \<Longrightarrow> cell_at_y_loop t y pos = None"
proof (induction t arbitrary: y pos)
  case Leaf
  show ?case by simp
next
  case (Node l c a d r)
  from Node.prems(1) have il: "augment_inv l" and ir: "augment_inv r" by auto
  from Node.prems(2)
  have tot: "content_height l + unat (cell_size c) + content_height r \<le> unat y"
    by (simp add: content_height_Node)
  show ?case
  proof (cases "gtk_list_item_manager_get_item_augment l")
    case None
    from tot have c: "unat (cell_size c) \<le> unat y" by linarith
    from tot unat_minus_le(1)[OF c] have "content_height r \<le> unat (y - cell_size c)"
      by linarith
    from Node.IH(2)[OF ir this] unat_minus_le(2)[OF c] None show ?thesis by simp
  next
    case (Some aug)
    from get_item_augment_Some[OF il Some]
    have sz: "aug_size aug = of_nat (content_height l)" by simp
    from tot have l: "content_height l \<le> unat y" by linarith
    have ul: "unat (aug_size aug) = content_height l"
      using unat_of_nat_le[OF l] sz by simp
    then have l': "unat (aug_size aug) \<le> unat y" using l by simp
    have y1: "unat (y - aug_size aug) = unat y - content_height l"
      using unat_minus_le(1)[OF l'] ul by simp
    with tot have c: "unat (cell_size c) \<le> unat (y - aug_size aug)" by linarith
    from tot y1 unat_minus_le(1)[OF c]
    have "content_height r \<le> unat (y - aug_size aug - cell_size c)" by linarith
    from Node.IH(2)[OF ir this] unat_minus_le(2)[OF c] unat_minus_le(2)[OF l'] Some
    show ?thesis by (simp add: Let_def)
  qed
qed

text \<open>A position at or beyond the number of items runs the descent off the tree.\<close>

lemma size_at_position_loop_beyond:
  "augment_inv t \<Longrightarrow> item_count t \<le> unat p \<Longrightarrow> size_at_position_loop t p y = None"
proof (induction t arbitrary: p y)
  case Leaf
  show ?case by simp
next
  case (Node l c a d r)
  from Node.prems(1) have il: "augment_inv l" and ir: "augment_inv r" by auto
  from Node.prems(2) have tot: "item_count l + unat (n_items c) + item_count r \<le> unat p"
    by (simp add: item_count_Node)
  show ?case
  proof (cases "gtk_list_item_manager_get_item_augment l")
    case None
    from tot have c: "unat (n_items c) \<le> unat p" by linarith
    from tot unat_minus_le(1)[OF c] have "item_count r \<le> unat (p - n_items c)"
      by linarith
    from Node.IH(2)[OF ir this] unat_minus_le(2)[OF c] None show ?thesis by simp
  next
    case (Some aug)
    from get_item_augment_Some[OF il Some]
    have sz: "aug_n_items aug = of_nat (item_count l)" by simp
    from tot have l: "item_count l \<le> unat p" by linarith
    have ul: "unat (aug_n_items aug) = item_count l"
      using unat_of_nat_le[OF l] sz by simp
    then have l': "unat (aug_n_items aug) \<le> unat p" using l by simp
    have y1: "unat (p - aug_n_items aug) = unat p - item_count l"
      using unat_minus_le(1)[OF l'] ul by simp
    with tot have c: "unat (n_items c) \<le> unat (p - aug_n_items aug)" by linarith
    from tot y1 unat_minus_le(1)[OF c]
    have "item_count r \<le> unat (p - aug_n_items aug - n_items c)" by linarith
    from Node.IH(2)[OF ir this] unat_minus_le(2)[OF c] unat_minus_le(2)[OF l'] Some
    show ?thesis by (simp add: Let_def)
  qed
qed

text \<open>
  C6.  \<open>short_last_row_view\<close> holds four items in three columns, rows 10 high.
  Position 5 is beyond the item count, and the documentation of
  \<^verbatim>\<open>gtk_grid_view_get_size_at_position\<close> promises \<^verbatim>\<open>FALSE\<close> for it; the function
  returns \<^verbatim>\<open>TRUE\<close> with the offset 10 and the size 10 of the last row.
\<close>

theorem position_past_the_end_is_found:
  "item_count (item_manager short_last_row_view) = 4 \<and>
   n_columns short_last_row_view = 3 \<and>
   gtk_grid_view_get_size_at_position short_last_row_view 5 =
     Inr \<lparr>cell_exists = True, at_offset = 10, at_size = 10\<rparr> \<and>
   Inr \<lparr>cell_exists = True, at_offset = 10, at_size = 10\<rparr> \<noteq>
     (Inr position_not_found :: error + size_at_position_result)"
  by (simp add: short_last_row_view_def item_count_def position_not_found_def query_defs)

text \<open>
  The rest of what is said of queries out of range holds.  On an empty index
  \<^verbatim>\<open>gtk_grid_view_get_cell_at_y\<close> reports \<^verbatim>\<open>NULL\<close> with all outputs 0 for every offset,
  and \<^verbatim>\<open>gtk_grid_view_get_size_at_position\<close> reports \<^verbatim>\<open>FALSE\<close> with all outputs 0 for
  every position once the grid has columns.  On any index
  \<^verbatim>\<open>gtk_grid_view_get_cell_at_y\<close> does so for an offset at or beyond the height of all
  rows, and \<^verbatim>\<open>gtk_grid_view_get_size_at_position\<close> for a position whose row starts at or
  beyond the item count.
\<close>

lemma out_of_range_is_not_found:
  "(item_manager self = Leaf \<longrightarrow> gtk_grid_view_get_cell_at_y self y = Inr cell_not_found) \<and>
   (item_manager self = Leaf \<and> n_columns self \<noteq> 0 \<longrightarrow>
      gtk_grid_view_get_size_at_position self p = Inr position_not_found) \<and>
   (augment_inv (item_manager self) \<and> content_height (item_manager self) \<le> unat y \<longrightarrow>
      gtk_grid_view_get_cell_at_y self y = Inr cell_not_found) \<and>
   (augment_inv (item_manager self) \<and> n_columns self \<noteq> 0 \<and>
    item_count (item_manager self) \<le> unat (p - p mod n_columns self) \<longrightarrow>
      gtk_grid_view_get_size_at_position self p = Inr position_not_found)"
proof (intro conjI impI)
  assume "item_manager self = Leaf"
  then show "gtk_grid_view_get_cell_at_y self y = Inr cell_not_found"
    by (simp add: gtk_grid_view_get_cell_at_y_def cell_not_found_def)
next
  assume "item_manager self = Leaf \<and> n_columns self \<noteq> 0"
  then show "gtk_grid_view_get_size_at_position self p = Inr position_not_found"
    by (simp add: gtk_grid_view_get_size_at_position_def checked_mod_def
        position_not_found_def)
next
  assume "augment_inv (item_manager self) \<and> content_height (item_manager self) \<le> unat y"
  then have "cell_at_y_loop (item_manager self) y 0 = None"
    by (simp add: cell_at_y_loop_beyond)
  then show "gtk_grid_view_get_cell_at_y self y = Inr cell_not_found"
    by (simp add: gtk_grid_view_get_cell_at_y_def cell_not_found_def)
next
  assume h: "augment_inv (item_manager self) \<and> n_columns self \<noteq> 0 \<and>
    item_count (item_manager self) \<le> unat (p - p mod n_columns self)"
  then have "size_at_position_loop (item_manager self) (p - p mod n_columns self) 0 = None"
    by (simp add: size_at_position_loop_beyond)
  with h show "gtk_grid_view_get_size_at_position self p = Inr position_not_found"
    by (simp add: gtk_grid_view_get_size_at_position_def checked_mod_def
        position_not_found_def)
qed

text \<open>In \<open>short_last_row_view\<close>: the offset 20 and the position 7 are not found.\<close>

lemma out_of_range_in_short_last_row_view:
  "content_height (item_manager short_last_row_view) = 20 \<and>
   gtk_grid_view_get_cell_at_y short_last_row_view 20 = Inr cell_not_found \<and>
   item_count (item_manager short_last_row_view) = 4 \<and>
   gtk_grid_view_get_size_at_position short_last_row_view 7 = Inr position_not_found"
proof -
  have a: "augment_inv (item_manager short_last_row_view)"
    by (simp add: short_last_row_view_def new_node_def)
  have h: "content_height (item_manager short_last_row_view) = 20"
    by (simp add: short_last_row_view_def new_node_def content_height_def)
  have n: "n_columns short_last_row_view = 3"
    by (simp add: short_last_row_view_def)
  have i: "item_count (item_manager short_last_row_view) = 4"
    by (simp add: short_last_row_view_def new_node_def item_count_def)
  have m: "unat ((7 :: guint) - 7 mod 3) = 6" by simp
  from out_of_range_is_not_found[of short_last_row_view 20 7] a h n i m
  show ?thesis by simp
qed

section \<open>Scroll-anchor controller\<close>

lemma bind_err_Inr_iff: "bind_err m f = Inr y \<longleftrightarrow> (\<exists>x. m = Inr x \<and> f x = Inr y)"
  by (cases m) auto


lemma set_anchor_result:
  "gtk_grid_view_set_anchor ops self position xalign xstart yalign ystart =
     (case d_to_uint ops (anchor_items_before ops self yalign) of
        None \<Rightarrow> Inl UndefinedConversion
      | Some n_before \<Rightarrow>
          (case d_to_uint ops (anchor_items_after ops self yalign) of
             None \<Rightarrow> Inl UndefinedConversion
           | Some n_after \<Rightarrow>
               Inr (let self = gtk_list_item_tracker_set_position self position n_before
                                 n_after
                    in if d_neq ops (anchor_xalign self) xalign \<or>
                          anchor_xstart self \<noteq> xstart \<or>
                          d_neq ops (anchor_yalign self) yalign \<or>
                          anchor_ystart self \<noteq> ystart
                       then self\<lparr>anchor_xalign := xalign, anchor_xstart := xstart,
                                 anchor_yalign := yalign, anchor_ystart := ystart,
                                 allocate_queued := True\<rparr>
                       else self)))"
  by (simp add: gtk_grid_view_set_anchor_def convert_def Let_def split: option.splits)

lemma set_anchor_tracker:
  assumes "gtk_grid_view_set_anchor ops self position xalign xstart yalign ystart = Inr self'"
  shows "anchor self' = position \<and>
         d_to_uint ops (anchor_items_before ops self yalign) = Some (anchor_n_before self') \<and>
         d_to_uint ops (anchor_items_after ops self yalign) = Some (anchor_n_after self')"
  using assms
  by (auto simp: set_anchor_result gtk_list_item_tracker_set_position_def Let_def
      split: option.splits if_splits)


lemmas handler_defs =
  derive_anchor_def convert_def exact_ops_def real_trunc_def
  gtk_grid_view_adjustment_is_flipped_def anchor_to_start_def query_defs
  word_sless_alt word_sle_eq

lemmas anchor_defs =
  gtk_grid_view_set_anchor_def gtk_list_item_tracker_set_position_def
  anchor_items_before_def anchor_items_after_def GTK_GRID_VIEW_MIN_VISIBLE_ROWS_def
  last_row_xalign_def DEFAULT_MAX_COLUMNS_def


section \<open>Pushing to a scroll-position store\<close>

text \<open>While the handler is blocked, configuring the store runs nothing.\<close>

lemma configure_while_blocked:
  assumes "handler_block_count (adjustment self which) \<noteq> 0"
  shows "gtk_adjustment_configure ops self which v l u s p ps =
     Inr (self\<lparr>adjustment := (adjustment self)
                 (which := (adjustment self which)
                    \<lparr>adj_value := v, adj_lower := l, adj_upper := u,
                     adj_step_increment := s, adj_page_increment := p,
                     adj_page_size := ps\<rparr>),
               trace := trace self @ [AdjustmentConfigured which]\<rparr>)"
  using assms by (simp add: gtk_adjustment_configure_def Let_def)

text \<open>A store that is configured from outside with another value does run the handler:
  in \<open>scrolled_view\<close>, scrolling from 5 to 10 re-derives the anchor.\<close>

lemma external_change_runs_handler:
  "\<exists>s. gtk_adjustment_configure exact_ops scrolled_view GTK_ORIENTATION_VERTICAL 10 0 20 1 9 10
         = Inr s \<and>
       trace s = [AdjustmentConfigured GTK_ORIENTATION_VERTICAL,
                  HandlerInvoked GTK_ORIENTATION_VERTICAL] \<and>
       anchor s = 3"
  by (simp add: gtk_adjustment_configure_def gtk_grid_view_adjustment_value_changed_cb_def
      scrolled_view_def short_last_row_view_def handler_defs anchor_defs)

lemma with_values_trace:
  "\<exists>value' self'.
      gtk_grid_view_update_adjustment_with_values ops self which value upper page_size =
        Inr (value', self') \<and>
      trace self' =
        trace self @
          [HandlerBlocked which, AdjustmentConfigured which, HandlerUnblocked which] \<and>
      handler_block_count (adjustment self' which) =
        handler_block_count (adjustment self which)"
  by (simp add: gtk_grid_view_update_adjustment_with_values_def Let_def
      configure_while_blocked g_signal_handlers_block_by_func_def
      g_signal_handlers_unblock_by_func_def gtk_grid_view_adjustment_is_flipped_def)

lemma with_values_trace_Inr:
  assumes "gtk_grid_view_update_adjustment_with_values ops self which value upper page_size
             = Inr (value', self')"
  shows "trace self' =
           trace self @
             [HandlerBlocked which, AdjustmentConfigured which, HandlerUnblocked which]"
  using with_values_trace[of ops self which "value" upper page_size] assms by auto

lemma update_adjustment_trace:
  assumes "gtk_grid_view_update_adjustment ops self which = Inr (v, self')"
  shows "\<exists>pushed. trace self' =
           trace self @
             [HandlerBlocked pushed, AdjustmentConfigured pushed, HandlerUnblocked pushed]"
  using assms
  by (auto simp: gtk_grid_view_update_adjustment_def bind_err_Inr_iff Let_def
      split: if_splits option.splits dest!: with_values_trace_Inr)

lemma layout_steps_keep_trace:
  "size_allocate_columns m self w h = Inr s1 \<Longrightarrow> trace s1 = trace self"
  "size_allocate_unknown_rows s1 known_rows = Inr s2 \<Longrightarrow> trace s2 = trace s1"
  by (auto simp: size_allocate_columns_def size_allocate_unknown_rows_def bind_err_Inr_iff
      Let_def split: prod.splits if_splits)

lemma size_allocate_trace:
  assumes "gtk_grid_view_size_allocate ops m self w h = Inr self'"
  shows "\<exists>events. trace self' = trace self @ events \<and>
                  (\<forall>which. HandlerInvoked which \<notin> set events)"
proof (cases "item_manager self = Leaf")
  case True
  with assms show ?thesis by (simp add: gtk_grid_view_size_allocate_def)
next
  case False
  with assms obtain s1 kr s2 x s3 y where
    a: "size_allocate_columns m self w h = Inr s1"
    and b: "size_allocate_unknown_rows s1 kr = Inr s2"
    and c: "gtk_grid_view_update_adjustment ops s2 (OPPOSITE_ORIENTATION (orientation s2))
              = Inr (x, s3)"
    and d: "gtk_grid_view_update_adjustment ops s3 (orientation s3) = Inr (y, self')"
    by (auto simp: gtk_grid_view_size_allocate_def bind_err_Inr_iff)
  from update_adjustment_trace[OF c] update_adjustment_trace[OF d]
    layout_steps_keep_trace(1)[OF a] layout_steps_keep_trace(2)[OF b]
  show ?thesis by auto
qed

text \<open>
  C9.  \<^verbatim>\<open>gtk_grid_view_update_adjustment_with_values\<close> always returns, and what it does
  at the store is, in this order and nothing else: block the handler, configure the
  store, unblock the handler; the handler is blocked afterwards exactly as often as
  before.  So the handler \<^verbatim>\<open>gtk_grid_view_adjustment_value_changed_cb\<close> is not run by the
  push, whatever the value was before.  Every push of \<^verbatim>\<open>gtk_grid_view_update_adjustment\<close>
  and of the layout pass goes through this function: neither runs the handler.
\<close>

theorem own_push_never_runs_handler:
  "(\<exists>value' self'.
      gtk_grid_view_update_adjustment_with_values ops self which value upper page_size =
        Inr (value', self') \<and>
      trace self' =
        trace self @
          [HandlerBlocked which, AdjustmentConfigured which, HandlerUnblocked which] \<and>
      handler_block_count (adjustment self' which) =
        handler_block_count (adjustment self which)) \<and>
   (\<forall>v self'. gtk_grid_view_update_adjustment ops self which = Inr (v, self') \<longrightarrow>
      (\<exists>pushed. trace self' =
         trace self @
           [HandlerBlocked pushed, AdjustmentConfigured pushed, HandlerUnblocked pushed])) \<and>
   (\<forall>self'. gtk_grid_view_size_allocate ops m self w h = Inr self' \<longrightarrow>
      (\<exists>events. trace self' = trace self @ events \<and>
                (\<forall>which. HandlerInvoked which \<notin> set events)))"
  using with_values_trace[of ops self which "value" upper page_size]
    update_adjustment_trace[of ops self which]
    size_allocate_trace[of ops m self w h]
  by blast

theorem own_push_never_runs_handler_witness:
  "adj_value (adjustment scrolled_view GTK_ORIENTATION_VERTICAL) = 5 \<and>
   handler_block_count (adjustment scrolled_view GTK_ORIENTATION_VERTICAL) = 0 \<and>
   (\<exists>v self'.
      gtk_grid_view_update_adjustment exact_ops scrolled_view GTK_ORIENTATION_VERTICAL =
        Inr (v, self') \<and>
      adj_value (adjustment self' GTK_ORIENTATION_VERTICAL) = 10 \<and>
      trace self' =
        [HandlerBlocked GTK_ORIENTATION_VERTICAL,
         AdjustmentConfigured GTK_ORIENTATION_VERTICAL,
         HandlerUnblocked GTK_ORIENTATION_VERTICAL])"
proof -
  have t: "trace scrolled_view = []"
    by (simp add: scrolled_view_def short_last_row_view_def gtk_grid_view_init_def)
  have "\<exists>v self'.
      gtk_grid_view_update_adjustment exact_ops scrolled_view GTK_ORIENTATION_VERTICAL =
        Inr (v, self') \<and>
      adj_value (adjustment self' GTK_ORIENTATION_VERTICAL) = 10"
    by (simp add: scrolled_view_def short_last_row_view_def layout_defs convert_def
        real_trunc_def query_defs)
  then obtain v self' where
    u: "gtk_grid_view_update_adjustment exact_ops scrolled_view GTK_ORIENTATION_VERTICAL =
          Inr (v, self')"
    and a: "adj_value (adjustment self' GTK_ORIENTATION_VERTICAL) = 10"
    by blast
  from own_push_never_runs_handler[of exact_ops scrolled_view GTK_ORIENTATION_VERTICAL] u
  obtain pushed where
    p: "trace self' =
          trace scrolled_view @
            [HandlerBlocked pushed, AdjustmentConfigured pushed, HandlerUnblocked pushed]"
    by blast
  have "HandlerBlocked GTK_ORIENTATION_VERTICAL \<in> set (trace self')"
    using u
    by (auto simp: scrolled_view_def short_last_row_view_def layout_defs convert_def
        real_trunc_def query_defs)
  with p t have "pushed = GTK_ORIENTATION_VERTICAL" by simp
  with u a p t show ?thesis
    by (simp add: scrolled_view_def short_last_row_view_def)
qed

end
